theory Spec2Isabelle
  imports Complex_Main "HOL-Library.Sublist"
begin

section \<open>JavaScript values used by the trade parser\<close>

text \<open>
  Numbers of the source are IEEE doubles. They are modelled as exact rationals extended
  with \<open>NaN\<close> (the value of arithmetic on \<open>undefined\<close>) and the two infinities. The
  rounding of the mantissa is not modelled, and the model has one zero. Every comparison
  with \<open>NaN\<close> is false, as in JavaScript.
\<close>

datatype jsnum = Num rat | NaN | PosInf | NegInf

fun js_abs :: "jsnum \<Rightarrow> jsnum" where
  "js_abs (Num x) = Num \<bar>x\<bar>"
| "js_abs NaN = NaN"
| "js_abs PosInf = PosInf"
| "js_abs NegInf = PosInf"

fun js_gt :: "jsnum \<Rightarrow> jsnum \<Rightarrow> bool" where
  "js_gt (Num x) (Num y) = (x > y)"
| "js_gt PosInf (Num y) = True"
| "js_gt PosInf NegInf = True"
| "js_gt (Num x) NegInf = True"
| "js_gt _ _ = False"

fun js_lt :: "jsnum \<Rightarrow> jsnum \<Rightarrow> bool" where
  "js_lt (Num x) (Num y) = (x < y)"
| "js_lt (Num x) PosInf = True"
| "js_lt NegInf PosInf = True"
| "js_lt NegInf (Num y) = True"
| "js_lt _ _ = False"

text \<open>Strict equality \<open>===\<close> on numbers: \<open>NaN\<close> is not equal to itself.\<close>

fun js_eq :: "jsnum \<Rightarrow> jsnum \<Rightarrow> bool" where
  "js_eq (Num x) (Num y) = (x = y)"
| "js_eq PosInf PosInf = True"
| "js_eq NegInf NegInf = True"
| "js_eq _ _ = False"

fun js_add :: "jsnum \<Rightarrow> jsnum \<Rightarrow> jsnum" where
  "js_add (Num x) (Num y) = Num (x + y)"
| "js_add NaN _ = NaN"
| "js_add _ NaN = NaN"
| "js_add PosInf NegInf = NaN"
| "js_add NegInf PosInf = NaN"
| "js_add PosInf _ = PosInf"
| "js_add _ PosInf = PosInf"
| "js_add NegInf _ = NegInf"
| "js_add _ NegInf = NegInf"

fun js_sub :: "jsnum \<Rightarrow> jsnum \<Rightarrow> jsnum" where
  "js_sub (Num x) (Num y) = Num (x - y)"
| "js_sub NaN _ = NaN"
| "js_sub _ NaN = NaN"
| "js_sub PosInf PosInf = NaN"
| "js_sub NegInf NegInf = NaN"
| "js_sub PosInf _ = PosInf"
| "js_sub _ PosInf = NegInf"
| "js_sub NegInf _ = NegInf"
| "js_sub _ NegInf = PosInf"

fun js_neg :: "jsnum \<Rightarrow> jsnum" where
  "js_neg (Num x) = Num (- x)"
| "js_neg NaN = NaN"
| "js_neg PosInf = NegInf"
| "js_neg NegInf = PosInf"

text \<open>
  Division, as the quotient itself, before it is rounded to a double: a nonzero number
  over 0 is an infinity, \<open>0 / 0\<close> and an infinity over an infinity are \<open>NaN\<close>, a number
  over an infinity is 0.
\<close>

fun js_div :: "jsnum \<Rightarrow> jsnum \<Rightarrow> jsnum" where
  "js_div (Num x) (Num y) =
     (if y = 0 then (if x = 0 then NaN else if 0 < x then PosInf else NegInf)
      else Num (x / y))"
| "js_div NaN _ = NaN"
| "js_div _ NaN = NaN"
| "js_div (Num x) _ = Num 0"
| "js_div PosInf (Num y) = (if y < 0 then NegInf else PosInf)"
| "js_div NegInf (Num y) = (if y < 0 then PosInf else NegInf)"
| "js_div _ _ = NaN"

text \<open>
  What a double holds of a quotient, as far as its range goes. A quotient whose magnitude
  reaches \<open>2^1024 - 2^970\<close> (half a unit in the last place above the largest double) is
  rounded to an infinity, and one of magnitude at most \<open>2^-1075\<close> (half the smallest
  double) is rounded to 0.
\<close>

definition DOUBLE_OVERFLOW :: rat where
  "DOUBLE_OVERFLOW = 2 ^ 1024 - 2 ^ 970"

definition DOUBLE_UNDERFLOW :: rat where
  "DOUBLE_UNDERFLOW = 1 / 2 ^ 1075"

fun ieee_range :: "jsnum \<Rightarrow> jsnum" where
  "ieee_range (Num q) =
     (if DOUBLE_OVERFLOW \<le> \<bar>q\<bar> then (if 0 < q then PosInf else NegInf)
      else if \<bar>q\<bar> \<le> DOUBLE_UNDERFLOW then Num 0
      else Num q)"
| "ieee_range x = x"

text \<open>
  \<open>v || 0\<close> on a number that may be absent: \<open>undefined\<close>, \<open>null\<close>, \<open>0\<close> and \<open>NaN\<close> give 0;
  an infinity is truthy.
\<close>

fun js_or0 :: "jsnum option \<Rightarrow> jsnum" where
  "js_or0 (Some (Num x)) = Num x"
| "js_or0 (Some PosInf) = PosInf"
| "js_or0 (Some NegInf) = NegInf"
| "js_or0 _ = Num 0"

text \<open>Truthiness of a string that may be absent: \<open>undefined\<close> and the empty string are falsy.\<close>

fun truthy :: "string option \<Rightarrow> bool" where
  "truthy (Some s) = (s \<noteq> [])"
| "truthy None = False"

subsection \<open>The built-in Map, in insertion order\<close>

text \<open>
  A JavaScript \<open>Map\<close> iterates in insertion order, and \<open>set\<close> on a key already present
  replaces the value in place. It is modelled as an association list with distinct keys.
\<close>

type_synonym ('k, 'v) jsmap = "('k \<times> 'v) list"

definition Map_get :: "('k, 'v) jsmap \<Rightarrow> 'k \<Rightarrow> 'v option" where
  "Map_get m k = map_of m k"

definition Map_has :: "('k, 'v) jsmap \<Rightarrow> 'k \<Rightarrow> bool" where
  "Map_has m k = (map_of m k \<noteq> None)"

fun Map_set :: "('k, 'v) jsmap \<Rightarrow> 'k \<Rightarrow> 'v \<Rightarrow> ('k, 'v) jsmap" where
  "Map_set [] k v = [(k, v)]"
| "Map_set (p # ps) k v = (if fst p = k then (k, v) # ps else p # Map_set ps k v)"

definition Map_delete :: "('k, 'v) jsmap \<Rightarrow> 'k \<Rightarrow> ('k, 'v) jsmap" where
  "Map_delete m k = filter (\<lambda>p. fst p \<noteq> k) m"

definition Map_keys :: "('k, 'v) jsmap \<Rightarrow> 'k list" where
  "Map_keys m = map fst m"

definition Map_values :: "('k, 'v) jsmap \<Rightarrow> 'v list" where
  "Map_values m = map snd m"

subsection \<open>Strings\<close>

text \<open>
  Strings are byte lists. \<open>toLowerCase\<close> is modelled on the ASCII letters, which is all
  the keywords and program ids of the parser contain.
\<close>

definition lower_char :: "char \<Rightarrow> char" where
  "lower_char c =
     (let n = (of_char c :: nat) in if 65 \<le> n \<and> n \<le> 90 then char_of (n + 32) else c)"

definition toLowerCase :: "string \<Rightarrow> string" where
  "toLowerCase s = map lower_char s"

definition str_includes :: "string \<Rightarrow> string \<Rightarrow> bool" where
  "str_includes s needle = sublist needle s"

fun join :: "string \<Rightarrow> string list \<Rightarrow> string" where
  "join sep [] = []"
| "join sep [x] = x"
| "join sep (x # y # ys) = x @ sep @ join sep (y # ys)"

fun digits_of :: "nat \<Rightarrow> string" where
  "digits_of n =
     (if n < 10 then [char_of (48 + n)] else digits_of (n div 10) @ [char_of (48 + n mod 10)])"

text \<open>\<open>a || b\<close> on strings that may be absent.\<close>

definition js_or :: "string option \<Rightarrow> string option \<Rightarrow> string option" where
  "js_or a b = (if truthy a then a else b)"

text \<open>A string inside a template literal; \<open>undefined\<close> prints as such.\<close>

fun str_of :: "string option \<Rightarrow> string" where
  "str_of (Some s) = s"
| "str_of None = ''undefined''"

datatype error = TypeError | ReferenceError

section \<open>The decoded transaction\<close>

text \<open>
  Sub-structures that the parser reads through \<open>?.\<close> or \<open>||\<close> may be absent
  (\<open>None\<close>). Values of a wrong type (a balance list that is not an array, a balance
  entry that is \<open>null\<close>) are outside this typed model.
\<close>

text \<open>An account key is a string, or an object \<open>{pubkey, signer, writable}\<close>.\<close>

datatype account_key =
  KeyString string
| KeyObject (pubkey: "string option") (signer: "bool option") (writable: bool)

text \<open>\<open>ix.parsed\<close> is an object with a \<open>type\<close>, or a plain string.\<close>

datatype parsed_info = ParsedObject (parsed_type: "string option") | ParsedString string

record instruction =
  programId :: "string option"
  programIdIndex :: "nat option"
  parsed :: "parsed_info option"

text \<open>\<open>inner.instructions\<close>: \<open>None\<close> when it is not an array.\<close>

record inner_instruction =
  inner_instructions :: "instruction list option"

record ui_token_amount =
  uiAmount :: "jsnum option"
  ui_decimals :: "nat option"

record token_balance =
  tb_owner :: "string option"
  tb_mint :: "string option"
  uiTokenAmount :: "ui_token_amount option"

record loaded_addresses =
  loaded_writable :: "string list option"
  loaded_readonly :: "string list option"

text \<open>
  An entry of a token balance array is an object, or \<open>None\<close> for a \<open>null\<close> entry.
\<close>

record tx_meta =
  preBalances :: "int list option"
  postBalances :: "int list option"
  preTokenBalances :: "token_balance option list option"
  postTokenBalances :: "token_balance option list option"
  innerInstructions :: "inner_instruction list option"
  logMessages :: "string list option"
  loadedAddresses :: "loaded_addresses option"

record tx_message =
  accountKeys :: "account_key list option"
  instructions :: "instruction list option"
  numRequiredSignatures :: "nat option"

record tx_data =
  message :: "tx_message option"

record transaction =
  tx_transaction :: "tx_data option"
  meta :: "tx_meta option"
  blockTime :: "int option"
  slot :: "nat option"

definition SOL_MINT :: string where
  "SOL_MINT = ''So11111111111111111111111111111111111111112''"

section \<open>Balance changes\<close>

record token_change =
  tc_mint :: string
  tc_owner :: string
  preAmount :: jsnum
  postAmount :: jsnum
  tc_change :: jsnum
  tc_decimals :: nat

record sol_change =
  account :: string
  preBalance :: jsnum
  postBalance :: jsnum
  sc_change :: jsnum
  isSigner :: bool
  isWritable :: bool

subsection \<open>parseTokenBalanceChanges\<close>

definition tb_key :: "token_balance \<Rightarrow> string" where
  "tb_key b = str_of (tb_owner b) @ ''-'' @ str_of (tb_mint b)"

text \<open>\<open>b?.uiTokenAmount?.uiAmount || 0\<close> and \<open>b.uiTokenAmount?.decimals || 0\<close>.\<close>

definition tb_amount :: "token_balance option \<Rightarrow> jsnum" where
  "tb_amount b =
     js_or0 (case b of None \<Rightarrow> None
             | Some b' \<Rightarrow> (case uiTokenAmount b' of None \<Rightarrow> None | Some u \<Rightarrow> uiAmount u))"

definition tb_decimals :: "token_balance \<Rightarrow> nat" where
  "tb_decimals b =
     (case uiTokenAmount b of None \<Rightarrow> 0
      | Some u \<Rightarrow> (case ui_decimals u of None \<Rightarrow> 0 | Some d \<Rightarrow> d))"

definition tb_keyed :: "token_balance \<Rightarrow> bool" where
  "tb_keyed b = (truthy (tb_owner b) \<and> truthy (tb_mint b))"

text \<open>The maps \<open>preMap\<close> and \<open>postMap\<close>, keyed by owner and mint.\<close>

definition balance_map :: "token_balance list \<Rightarrow> (string, token_balance) jsmap" where
  "balance_map bs = foldl (\<lambda>m b. if tb_keyed b then Map_set m (tb_key b) b else m) [] bs"

text \<open>First pass, over the post balances: a change beyond the dust threshold.\<close>

definition changed_pass ::
  "(string, token_balance) jsmap \<Rightarrow> (string, token_change) jsmap \<Rightarrow> token_balance
     \<Rightarrow> (string, token_change) jsmap" where
  "changed_pass preMap changesSet post =
     (if \<not> tb_keyed post then changesSet
      else
        let key = tb_key post;
            pre = Map_get preMap key;
            postAmt = tb_amount (Some post);
            preAmt = tb_amount pre
        in if js_gt (js_abs (js_sub postAmt preAmt)) (Num 0.000001)
           then Map_set changesSet key
                  \<lparr>tc_mint = str_of (tb_mint post), tc_owner = str_of (tb_owner post),
                   preAmount = preAmt, postAmount = postAmt,
                   tc_change = js_sub postAmt preAmt, tc_decimals = tb_decimals post\<rparr>
           else changesSet)"

text \<open>Second pass, over the pre balances: accounts that disappeared.\<close>

definition vanished_pass ::
  "(string, token_balance) jsmap \<Rightarrow> (string, token_change) jsmap \<Rightarrow> token_balance
     \<Rightarrow> (string, token_change) jsmap" where
  "vanished_pass postMap changesSet pre =
     (if \<not> tb_keyed pre then changesSet
      else
        let key = tb_key pre;
            post = Map_get postMap key;
            preAmt = tb_amount (Some pre);
            postAmt = tb_amount post
        in if js_gt preAmt (Num 0.000001) \<and> (post = None \<or> js_lt postAmt (Num 0.000001))
           then (if \<not> Map_has changesSet key
                 then Map_set changesSet key
                        \<lparr>tc_mint = str_of (tb_mint pre), tc_owner = str_of (tb_owner pre),
                         preAmount = preAmt, postAmount = Num 0,
                         tc_change = js_neg preAmt, tc_decimals = tb_decimals pre\<rparr>
                 else changesSet)
           else changesSet)"

text \<open>Third pass, over the post balances: accounts that are new.\<close>

definition created_pass ::
  "(string, token_balance) jsmap \<Rightarrow> (string, token_change) jsmap \<Rightarrow> token_balance
     \<Rightarrow> (string, token_change) jsmap" where
  "created_pass preMap changesSet post =
     (if \<not> tb_keyed post then changesSet
      else
        let key = tb_key post;
            pre = Map_get preMap key;
            postAmt = tb_amount (Some post)
        in if js_gt postAmt (Num 0.000001) \<and> pre = None
           then (if \<not> Map_has changesSet key
                 then Map_set changesSet key
                        \<lparr>tc_mint = str_of (tb_mint post), tc_owner = str_of (tb_owner post),
                         preAmount = Num 0, postAmount = postAmt,
                         tc_change = postAmt, tc_decimals = tb_decimals post\<rparr>
                 else changesSet)
           else changesSet)"

text \<open>
  The three passes over arrays whose entries are all objects.
\<close>

definition token_passes :: "token_balance list \<Rightarrow> token_balance list \<Rightarrow> token_change list" where
  "token_passes pres posts =
     (let preMap = balance_map pres;
          postMap = balance_map posts;
          c1 = foldl (changed_pass preMap) [] posts;
          c2 = foldl (vanished_pass postMap) c1 pres;
          c3 = foldl (created_pass preMap) c2 posts
      in Map_values c3)"

text \<open>
  \<open>meta.preTokenBalances || []\<close> reads an absent array as an empty one. The first loops
  over the two arrays read \<open>pre.owner\<close> and \<open>post.owner\<close> of every entry, which throws a
  \<open>TypeError\<close> on an entry that is \<open>null\<close> or \<open>undefined\<close> (\<open>those\<close> is \<open>None\<close> for such an
  array).
\<close>

definition parseTokenBalanceChanges :: "tx_meta option \<Rightarrow> error + token_change list" where
  "parseTokenBalanceChanges m =
     (case m of
        None \<Rightarrow> Inr []
      | Some mt \<Rightarrow>
          if postTokenBalances mt = None \<and> preTokenBalances mt = None then Inr []
          else
            (case those (case preTokenBalances mt of None \<Rightarrow> [] | Some xs \<Rightarrow> xs) of
               None \<Rightarrow> Inl TypeError
             | Some pres \<Rightarrow>
                 (case those (case postTokenBalances mt of None \<Rightarrow> [] | Some xs \<Rightarrow> xs) of
                    None \<Rightarrow> Inl TypeError
                  | Some posts \<Rightarrow> Inr (token_passes pres posts))))"

subsection \<open>parseSOLBalanceChanges\<close>

text \<open>
  The address of an account key object:
  \<open>accountKey.pubkey?.toString() || accountKey.toString?.() || String(accountKey)\<close>.
\<close>

definition key_object_address :: "string option \<Rightarrow> string" where
  "key_object_address pk = (if truthy pk then str_of pk else ''[object Object]'')"

definition key_truthy :: "account_key \<Rightarrow> bool" where
  "key_truthy k = (case k of KeyString s \<Rightarrow> s \<noteq> [] | KeyObject _ _ _ \<Rightarrow> True)"

text \<open>The entry pushed for position \<open>index\<close>, whose balances differ.\<close>

definition sol_entry ::
  "account_key list \<Rightarrow> string list \<Rightarrow> nat \<Rightarrow> nat \<Rightarrow> nat \<Rightarrow> int option \<Rightarrow> int \<Rightarrow> sol_change" where
  "sol_entry allAccountKeys allLoadedAddresses nKeys signerEndIndex index pre post =
     (let accountKey = (if index < length allAccountKeys then Some (allAccountKeys ! index) else None);
          (addr, sgn, wr) =
            (case accountKey of
               Some (KeyString s) \<Rightarrow>
                 if s \<noteq> [] then (s, index < signerEndIndex, False)
                 else if nKeys \<le> index \<and> index - nKeys < length allLoadedAddresses
                      then (allLoadedAddresses ! (index - nKeys), False, False)
                      else (''account_'' @ digits_of index, index < signerEndIndex, False)
             | Some (KeyObject pk sg w) \<Rightarrow>
                 (key_object_address pk,
                  (case sg of Some b \<Rightarrow> b | None \<Rightarrow> index < signerEndIndex), w)
             | None \<Rightarrow>
                 if nKeys \<le> index \<and> index - nKeys < length allLoadedAddresses
                 then (allLoadedAddresses ! (index - nKeys), False, False)
                 else (''account_'' @ digits_of index, index < signerEndIndex, False))
      in \<lparr>account = addr,
          preBalance = (case pre of None \<Rightarrow> NaN | Some p \<Rightarrow> Num (of_int p / 1000000000)),
          postBalance = Num (of_int post / 1000000000),
          sc_change = (case pre of None \<Rightarrow> NaN | Some p \<Rightarrow> Num (of_int (post - p) / 1000000000)),
          isSigner = sgn, isWritable = wr\<rparr>)"

text \<open>
  \<open>meta.postBalances.forEach((postBalance, index) => ...)\<close>. Reading
  \<open>meta.preBalances[index]\<close> throws when \<open>preBalances\<close> is absent; beyond the end of the
  array it gives \<open>undefined\<close>, which differs from every number.
\<close>

fun sol_forEach ::
  "(nat \<Rightarrow> int option \<Rightarrow> int \<Rightarrow> sol_change) \<Rightarrow> int list option \<Rightarrow> int list \<Rightarrow> nat
     \<Rightarrow> sol_change list \<Rightarrow> error + sol_change list" where
  "sol_forEach mk pres [] index changes = Inr changes"
| "sol_forEach mk pres (post # rest) index changes =
     (case pres of
        None \<Rightarrow> Inl TypeError
      | Some ps \<Rightarrow>
          let pre = (if index < length ps then Some (ps ! index) else None)
          in if pre \<noteq> Some post
             then sol_forEach mk pres rest (Suc index) (changes @ [mk index pre post])
             else sol_forEach mk pres rest (Suc index) changes)"

definition parseSOLBalanceChanges :: "transaction \<Rightarrow> error + sol_change list" where
  "parseSOLBalanceChanges tx =
     (case tx_transaction tx of
        None \<Rightarrow> Inl TypeError
      | Some txData \<Rightarrow>
          (case (case meta tx of None \<Rightarrow> None | Some mt \<Rightarrow> map_option (Pair mt) (postBalances mt)) of
             None \<Rightarrow> Inr []
           | Some (mt, posts) \<Rightarrow>
               (case message txData of
                  None \<Rightarrow> Inl TypeError
                | Some msg \<Rightarrow>
                    let signerEndIndex = (case numRequiredSignatures msg of None \<Rightarrow> 0 | Some n \<Rightarrow> n);
                        keys = (case accountKeys msg of None \<Rightarrow> [] | Some ks \<Rightarrow> ks);
                        writableLoaded =
                          (case loadedAddresses mt of None \<Rightarrow> []
                           | Some la \<Rightarrow> (case loaded_writable la of None \<Rightarrow> [] | Some xs \<Rightarrow> xs));
                        readonlyLoaded =
                          (case loadedAddresses mt of None \<Rightarrow> []
                           | Some la \<Rightarrow> (case loaded_readonly la of None \<Rightarrow> [] | Some xs \<Rightarrow> xs));
                        allLoadedAddresses = writableLoaded @ readonlyLoaded;
                        allAccountKeys = keys @ map KeyString allLoadedAddresses
                    in sol_forEach
                         (sol_entry allAccountKeys allLoadedAddresses (length keys) signerEndIndex)
                         (preBalances mt) posts 0 [])))"

section \<open>Trade outcomes\<close>

datatype trade_type = Buy | Sell | Swap

text \<open>
  The two notes of the generic parser (both are Chinese sentences in the source):
  \<open>SwapViaSol\<close> is "token to token swap (through SOL)", \<open>MainPairExtracted\<close> is
  "the transaction contains several changes, the main trading pair was extracted".
\<close>

datatype note_tag = SwapViaSol | MainPairExtracted

record token_info =
  mint :: string
  symbol :: string
  amount :: jsnum
  decimals :: nat

text \<open>
  The object returned by the parsers. Fields that a parser does not set are \<open>None\<close>.
  The pass-through fields \<open>route\<close> and \<open>_debug\<close> are left out.
\<close>

record trade_info =
  ttype :: trade_type
  soldToken :: token_info
  boughtToken :: token_info
  price :: "jsnum option"
  holderAddress :: "string option"
  dex :: "string option"
  source :: "string option"
  trade_note :: "note_tag option"
  platform :: "string option"
  hasSwapInstruction :: "bool option"
  orcaInstructions :: "nat option"
  pumpInstructions :: "nat option"
  routed :: "bool option"
  fee :: "jsnum option"
  signature :: "string option"
  timestamp :: "int option"
  trade_slot :: "nat option"

definition mk_trade ::
  "trade_type \<Rightarrow> token_info \<Rightarrow> token_info \<Rightarrow> jsnum option \<Rightarrow> string option \<Rightarrow> trade_info" where
  "mk_trade ty sold bought pr holder =
     \<lparr>ttype = ty, soldToken = sold, boughtToken = bought, price = pr, holderAddress = holder,
      dex = None, source = None, trade_note = None, platform = None,
      hasSwapInstruction = None, orcaInstructions = None, pumpInstructions = None,
      routed = None, fee = None, signature = None, timestamp = None, trade_slot = None\<rparr>"

definition inferTradeType :: "string \<Rightarrow> string \<Rightarrow> trade_type" where
  "inferTradeType inputMint outputMint =
     (if inputMint = SOL_MINT then Buy else if outputMint = SOL_MINT then Sell else Swap)"

section \<open>analyzeSOLTokenTrade\<close>

definition significant_sol :: "sol_change \<Rightarrow> bool" where
  "significant_sol c = js_gt (js_abs (sc_change c)) (Num 0.0001)"

definition significant_token :: "token_change \<Rightarrow> bool" where
  "significant_token c =
     (if tc_mint c = SOL_MINT \<or> tc_mint c = ''SOL'' then False
      else js_gt (js_abs (tc_change c)) (Num 0.000001))"

definition sol_spent :: "sol_change \<Rightarrow> bool" where
  "sol_spent c = js_lt (sc_change c) (Num 0)"

definition sol_received :: "sol_change \<Rightarrow> bool" where
  "sol_received c = js_gt (sc_change c) (Num 0)"

text \<open>\<open>xs.reduce((max, c) => Math.abs(c.change) > Math.abs(max.change) ? c : max, init)\<close>\<close>

definition max_abs_change :: "token_change \<Rightarrow> token_change list \<Rightarrow> token_change" where
  "max_abs_change init xs =
     foldl (\<lambda>mx c. if js_gt (js_abs (tc_change c)) (js_abs (tc_change mx)) then c else mx) init xs"

definition userTokenChanges :: "sol_change list \<Rightarrow> token_change list \<Rightarrow> token_change list" where
  "userTokenChanges significantSolChanges significantTokenChanges =
     (let solSpentAccounts = map account (filter sol_spent significantSolChanges);
          solReceivedAccounts = map account (filter sol_received significantSolChanges);
          signerAccounts = map account (filter isSigner significantSolChanges)
      in filter (\<lambda>c.
           (js_gt (tc_change c) (Num 0) \<and>
              (tc_owner c \<in> set solSpentAccounts \<or> tc_owner c \<in> set signerAccounts)) \<or>
           (js_lt (tc_change c) (Num 0) \<and>
              (tc_owner c \<in> set solReceivedAccounts \<or> tc_owner c \<in> set signerAccounts)))
         significantTokenChanges)"

text \<open>The groups of \<open>tokenChangesByMint\<close>, in insertion order of the mints.\<close>

definition group_push ::
  "(string, token_change list) jsmap \<Rightarrow> string \<Rightarrow> token_change \<Rightarrow> (string, token_change list) jsmap" where
  "group_push m key c =
     (let m' = (if \<not> Map_has m key then Map_set m key [] else m)
      in Map_set m' key ((case Map_get m' key of None \<Rightarrow> [] | Some cs \<Rightarrow> cs) @ [c]))"

definition group_by_mint :: "token_change list \<Rightarrow> (string, token_change list) jsmap" where
  "group_by_mint cs = foldl (\<lambda>m c. group_push m (tc_mint c) c) [] cs"

text \<open>
  The fallbacks that fill \<open>effectiveTokenChanges\<close>: the signers' token changes, then
  the largest positive change when SOL was spent, then the largest change of every mint.
\<close>

definition effectiveTokenChanges :: "sol_change list \<Rightarrow> token_change list \<Rightarrow> token_change list" where
  "effectiveTokenChanges significantSolChanges significantTokenChanges =
     (let user = userTokenChanges significantSolChanges significantTokenChanges;
          signerSolChanges = filter isSigner significantSolChanges;
          e1 = (if user = [] \<and> signerSolChanges \<noteq> []
                then filter (\<lambda>c. tc_owner c \<in> set (map account signerSolChanges))
                       significantTokenChanges
                else user);
          solSpentChanges = filter sol_spent significantSolChanges;
          positiveTokenChanges = filter (\<lambda>c. js_gt (tc_change c) (Num 0)) significantTokenChanges;
          e2 = (if e1 = [] \<and> solSpentChanges \<noteq> []
                then (case positiveTokenChanges of [] \<Rightarrow> e1
                      | p # _ \<Rightarrow> [max_abs_change p positiveTokenChanges])
                else e1)
      in if e2 = [] \<and> significantTokenChanges \<noteq> []
         then concat (map (\<lambda>(k, changes). case changes of [] \<Rightarrow> []
                                           | c # _ \<Rightarrow> [max_abs_change c changes])
                        (group_by_mint significantTokenChanges))
         else e2)"

record token_total =
  tt_mint :: string
  tt_decimals :: nat
  totalChange :: jsnum

text \<open>\<open>tokenChangeMap\<close>: the changes of each mint added up.\<close>

definition total_add :: "(string, token_total) jsmap \<Rightarrow> token_change \<Rightarrow> (string, token_total) jsmap" where
  "total_add m c =
     (let key = tc_mint c;
          m' = (if \<not> Map_has m key
                then Map_set m key \<lparr>tt_mint = tc_mint c, tt_decimals = tc_decimals c, totalChange = Num 0\<rparr>
                else m)
      in case Map_get m' key of
           None \<Rightarrow> m'
         | Some t \<Rightarrow> Map_set m' key (t\<lparr>totalChange := js_add (totalChange t) (tc_change c)\<rparr>))"

definition tokenChangeMap :: "token_change list \<Rightarrow> (string, token_total) jsmap" where
  "tokenChangeMap effective = foldl total_add [] effective"

definition totalSolSpent :: "sol_change list \<Rightarrow> jsnum" where
  "totalSolSpent solSpentChanges =
     foldl (\<lambda>sum c. js_add sum (js_abs (sc_change c))) (Num 0) solSpentChanges"

definition totalSolReceived :: "sol_change list \<Rightarrow> jsnum" where
  "totalSolReceived solReceivedChanges =
     foldl (\<lambda>sum c. js_add sum (sc_change c)) (Num 0) solReceivedChanges"

definition pick_tokenBought :: "token_total list \<Rightarrow> token_total option" where
  "pick_tokenBought tokensBought =
     (case tokensBought of
        [] \<Rightarrow> None
      | [t] \<Rightarrow> Some t
      | t # _ \<Rightarrow>
          Some (foldl (\<lambda>mx t'. if js_gt (totalChange t') (totalChange mx) then t' else mx)
                  t tokensBought))"

definition pick_tokenSold :: "token_total list \<Rightarrow> token_total option" where
  "pick_tokenSold tokensSold =
     (case tokensSold of
        [] \<Rightarrow> None
      | [t] \<Rightarrow> Some t
      | t # _ \<Rightarrow>
          Some (foldl (\<lambda>mx t'. if js_gt (js_abs (totalChange t')) (js_abs (totalChange mx))
                                then t' else mx)
                  t tokensSold))"

text \<open>
  The holder address, first from the token changes of the traded mint (a signer's first),
  then from the first signer among all SOL changes.
\<close>

definition holder_from_tokens :: "sol_change list \<Rightarrow> token_change list \<Rightarrow> string option" where
  "holder_from_tokens solChanges matching =
     (case matching of
        [] \<Rightarrow> None
      | m0 # _ \<Rightarrow>
          js_or (map_option tc_owner
                   (find (\<lambda>c. find (\<lambda>sc. account sc = tc_owner c \<and> isSigner sc) solChanges \<noteq> None)
                      matching))
                (Some (tc_owner m0)))"

definition holder_from_signer :: "sol_change list \<Rightarrow> string option \<Rightarrow> string option" where
  "holder_from_signer solChanges holder =
     (if \<not> truthy holder
      then (case find isSigner solChanges of None \<Rightarrow> holder | Some c \<Rightarrow> Some (account c))
      else holder)"

definition holder_from_sol :: "sol_change list \<Rightarrow> string option \<Rightarrow> string option" where
  "holder_from_sol changes holder =
     (if \<not> truthy holder
      then js_or (map_option account (find isSigner changes))
             (case changes of [] \<Rightarrow> None | c # _ \<Rightarrow> Some (account c))
      else holder)"

text \<open>
  In the sell branch the source then reads \<open>transaction.transaction\<close> when the holder is
  still unknown; no \<open>transaction\<close> is in scope of this method, so that read throws a
  \<open>ReferenceError\<close>.
\<close>

definition analyzeSOLTokenTrade ::
  "token_change list \<Rightarrow> sol_change list \<Rightarrow> error + trade_info option" where
  "analyzeSOLTokenTrade tokenChanges solChanges =
     (let significantSolChanges = filter significant_sol solChanges;
          significantTokenChanges = filter significant_token tokenChanges;
          solSpentChanges = filter sol_spent significantSolChanges;
          solReceivedChanges = filter sol_received significantSolChanges;
          effective = effectiveTokenChanges significantSolChanges significantTokenChanges;
          totals = Map_values (tokenChangeMap effective);
          spent = totalSolSpent solSpentChanges;
          tokenBought = pick_tokenBought (filter (\<lambda>t. js_gt (totalChange t) (Num 0)) totals)
      in case (if js_gt spent (Num 0) then tokenBought else None) of
           Some tb \<Rightarrow>
             let matching = filter (\<lambda>c. tc_mint c = tt_mint tb \<and> js_gt (tc_change c) (Num 0)) effective;
                 h1 = holder_from_tokens solChanges matching;
                 h2 = holder_from_signer solChanges h1;
                 h3 = (if \<not> truthy h2 then js_or (holder_from_sol solSpentChanges h2) None else h2)
             in Inr (Some (mk_trade Buy
                      \<lparr>mint = SOL_MINT, symbol = ''SOL'', amount = spent, decimals = 9\<rparr>
                      \<lparr>mint = tt_mint tb, symbol = ''Token'', amount = totalChange tb,
                       decimals = tt_decimals tb\<rparr>
                      (Some (js_div spent (totalChange tb)))
                      h3))
         | None \<Rightarrow>
             let received = totalSolReceived solReceivedChanges;
                 tokenSold = pick_tokenSold (filter (\<lambda>t. js_lt (totalChange t) (Num 0)) totals)
             in case (if js_gt received (Num 0) then tokenSold else None) of
                  Some ts \<Rightarrow>
                    let matching = filter (\<lambda>c. tc_mint c = tt_mint ts \<and> js_lt (tc_change c) (Num 0)) effective;
                        h1 = holder_from_tokens solChanges matching;
                        h2 = holder_from_signer solChanges h1;
                        h3 = holder_from_sol solReceivedChanges h2
                    in if \<not> truthy h3 then Inl ReferenceError
                       else Inr (Some (mk_trade Sell
                              \<lparr>mint = tt_mint ts, symbol = ''Token'',
                               amount = js_abs (totalChange ts), decimals = tt_decimals ts\<rparr>
                              \<lparr>mint = SOL_MINT, symbol = ''SOL'', amount = received, decimals = 9\<rparr>
                              (Some (js_div received (js_abs (totalChange ts))))
                              h3))
                | None \<Rightarrow> Inr None)"

section \<open>parseGenericTransaction\<close>

datatype item_type = TokenItem | SolItem

text \<open>An element of \<open>allChanges\<close>: \<open>{type, mint, amount, decimals}\<close>.\<close>

record change_item =
  ci_type :: item_type
  ci_mint :: string
  ci_amount :: jsnum
  ci_decimals :: nat

text \<open>
  \<open>calculatePrice(sold, bought)\<close>: 0 when the sold amount is zero, else the quotient as a
  double, which is an infinity once the quotient leaves the range of the doubles.
\<close>

definition calculatePrice :: "change_item \<Rightarrow> change_item \<Rightarrow> jsnum" where
  "calculatePrice sold bought =
     (let soldAmount = js_abs (ci_amount sold);
          boughtAmount = ci_amount bought
      in if js_eq soldAmount (Num 0) then Num 0 else ieee_range (js_div boughtAmount soldAmount))"

text \<open>The \<open>price\<close> field of an outcome built from a pair: \<open>price: this.calculatePrice(sold, bought)\<close>.\<close>

definition price_field :: "change_item \<Rightarrow> change_item \<Rightarrow> jsnum option" where
  "price_field sold bought = Some (calculatePrice sold bought)"

definition liquidityOperations :: "string list" where
  "liquidityOperations =
     [''rebalance_liquidity'', ''rebalance'', ''add_liquidity'', ''remove_liquidity'',
      ''deposit'', ''withdraw'']"

definition mentions_liquidity :: "string \<Rightarrow> bool" where
  "mentions_liquidity t = list_ex (\<lambda>op. str_includes t (toLowerCase op)) liquidityOperations"

definition is_liquidity_instruction :: "instruction \<Rightarrow> bool" where
  "is_liquidity_instruction ix =
     (case parsed ix of
        Some (ParsedObject ty) \<Rightarrow>
          mentions_liquidity (toLowerCase (case ty of None \<Rightarrow> [] | Some t \<Rightarrow> t))
      | _ \<Rightarrow> False)"

definition tx_instructions :: "transaction \<Rightarrow> instruction list" where
  "tx_instructions tx =
     (case tx_transaction tx of None \<Rightarrow> []
      | Some d \<Rightarrow> (case message d of None \<Rightarrow> []
                   | Some m \<Rightarrow> (case instructions m of None \<Rightarrow> [] | Some ixs \<Rightarrow> ixs)))"

definition tx_innerInstructions :: "transaction \<Rightarrow> inner_instruction list" where
  "tx_innerInstructions tx =
     (case meta tx of None \<Rightarrow> []
      | Some mt \<Rightarrow> (case innerInstructions mt of None \<Rightarrow> [] | Some xs \<Rightarrow> xs))"

text \<open>\<open>(meta?.logMessages || []).join(' ').toLowerCase()\<close>\<close>

definition tx_logText :: "transaction \<Rightarrow> string" where
  "tx_logText tx =
     toLowerCase (join '' ''
       (case meta tx of None \<Rightarrow> []
        | Some mt \<Rightarrow> (case logMessages mt of None \<Rightarrow> [] | Some xs \<Rightarrow> xs)))"

definition is_liquidity_transaction :: "transaction \<Rightarrow> bool" where
  "is_liquidity_transaction tx =
     (let hasLiquidityOperation = mentions_liquidity (tx_logText tx);
          hasLiquidityInstruction = list_ex is_liquidity_instruction (tx_instructions tx);
          hasLiquidityInnerInstruction =
            list_ex (\<lambda>inner. case inner_instructions inner of None \<Rightarrow> False
                             | Some ixs \<Rightarrow> list_ex is_liquidity_instruction ixs)
              (tx_innerInstructions tx)
      in hasLiquidityOperation \<or> hasLiquidityInstruction \<or> hasLiquidityInnerInstruction)"

text \<open>\<open>accountKeys.find(acc => typeof acc === 'object' && acc.signer)\<close>, then its address.\<close>

definition first_signer_key :: "account_key list \<Rightarrow> string option" where
  "first_signer_key keys =
     (case find (\<lambda>k. case k of KeyObject _ sg _ \<Rightarrow> sg = Some True | KeyString _ \<Rightarrow> False) keys of
        Some (KeyObject pk _ _) \<Rightarrow> Some (key_object_address pk)
      | _ \<Rightarrow> None)"

definition tx_accountKeys :: "transaction \<Rightarrow> account_key list option" where
  "tx_accountKeys tx =
     (case tx_transaction tx of None \<Rightarrow> None
      | Some d \<Rightarrow> (case message d of None \<Rightarrow> None | Some m \<Rightarrow> accountKeys m))"

definition getHolderAddress :: "transaction \<Rightarrow> sol_change list \<Rightarrow> string option" where
  "getHolderAddress tx solChanges =
     (case find isSigner solChanges of
        Some c \<Rightarrow> Some (account c)
      | None \<Rightarrow>
          (case solChanges of
             c # _ \<Rightarrow> Some (account c)
           | [] \<Rightarrow> (case tx_accountKeys tx of None \<Rightarrow> None | Some keys \<Rightarrow> first_signer_key keys)))"

definition group_by_owner :: "token_change list \<Rightarrow> (string, token_change list) jsmap" where
  "group_by_owner cs = foldl (\<lambda>m c. group_push m (tc_owner c) c) [] cs"

text \<open>The owner whose changes add up to the largest total of absolute values.\<close>

definition maxOwner :: "(string, token_change list) jsmap \<Rightarrow> string option" where
  "maxOwner groups =
     snd (foldl (\<lambda>(maxTotalChange, mo) (owner, changes).
                   let totalChange' = foldl (\<lambda>sum c. js_add sum (js_abs (tc_change c))) (Num 0) changes
                   in if js_gt totalChange' maxTotalChange then (totalChange', Some owner)
                      else (maxTotalChange, mo))
            (Num 0, None) groups)"

definition swap_effective :: "token_change list \<Rightarrow> sol_change list \<Rightarrow> token_change list" where
  "swap_effective significantTokenChanges solChanges =
     (let signerAccounts = map account (filter isSigner solChanges);
          user = filter (\<lambda>c. tc_owner c \<in> set signerAccounts) significantTokenChanges
      in if user = []
         then (let groups = group_by_owner significantTokenChanges;
                   mo = maxOwner groups
               in if truthy mo
                  then (case Map_get groups (str_of mo) of None \<Rightarrow> user | Some cs \<Rightarrow> cs)
                  else user)
         else user)"

text \<open>The token-to-token swap found first, before the SOL analysis.\<close>

definition token_swap ::
  "string \<Rightarrow> string option \<Rightarrow> token_change list \<Rightarrow> trade_info option" where
  "token_swap dexName holder effective =
     (let tokenSold = filter (\<lambda>c. js_lt (tc_change c) (Num 0)) effective;
          tokenBought = filter (\<lambda>c. js_gt (tc_change c) (Num 0)) effective
      in case (tokenSold, tokenBought) of
           (s0 # _, b0 # _) \<Rightarrow>
             let maxSold = max_abs_change s0 tokenSold;
                 maxBought = max_abs_change b0 tokenBought
             in if tc_mint maxSold \<noteq> SOL_MINT \<and> tc_mint maxBought \<noteq> SOL_MINT
                then
                  let userAddress =
                        js_or (case effective of [] \<Rightarrow> None | e # _ \<Rightarrow> Some (tc_owner e)) holder
                  in Some ((mk_trade Swap
                        \<lparr>mint = tc_mint maxSold, symbol = ''Token'',
                         amount = js_abs (tc_change maxSold), decimals = tc_decimals maxSold\<rparr>
                        \<lparr>mint = tc_mint maxBought, symbol = ''Token'',
                         amount = tc_change maxBought, decimals = tc_decimals maxBought\<rparr>
                        (Some (js_div (tc_change maxBought) (js_abs (tc_change maxSold))))
                        (js_or userAddress holder))
                        \<lparr>dex := Some dexName, source := Some ''generic_parser'',
                         trade_note := Some SwapViaSol\<rparr>)
                else None
         | _ \<Rightarrow> None)"

definition allChanges :: "token_change list \<Rightarrow> sol_change list \<Rightarrow> change_item list" where
  "allChanges tokenChanges solChanges =
     map (\<lambda>c. \<lparr>ci_type = TokenItem, ci_mint = tc_mint c, ci_amount = tc_change c,
               ci_decimals = tc_decimals c\<rparr>) tokenChanges @
     map (\<lambda>c. \<lparr>ci_type = SolItem, ci_mint = SOL_MINT, ci_amount = sc_change c,
               ci_decimals = 9\<rparr>) solChanges"

definition item_token :: "change_item \<Rightarrow> bool \<Rightarrow> token_info" where
  "item_token item sold =
     \<lparr>mint = ci_mint item,
      symbol = (if ci_mint item = SOL_MINT then ''SOL'' else ''Token''),
      amount = (if sold then js_abs (ci_amount item) else ci_amount item),
      decimals = ci_decimals item\<rparr>"

text \<open>\<open>xs.reduce((max, item) => Math.abs(item.amount) > Math.abs(max.amount) ? item : max)\<close>,
  without an initial value: the first element starts, the fold runs over the rest.\<close>

definition max_abs_item :: "change_item \<Rightarrow> change_item list \<Rightarrow> change_item" where
  "max_abs_item first rest =
     foldl (\<lambda>mx i. if js_gt (js_abs (ci_amount i)) (js_abs (ci_amount mx)) then i else mx) first rest"

definition isSOLTokenTrade :: "change_item \<Rightarrow> change_item \<Rightarrow> bool" where
  "isSOLTokenTrade maxSold maxBought =
     ((ci_mint maxSold = ''SOL'' \<and> ci_type maxBought = TokenItem) \<or>
      (ci_type maxSold = TokenItem \<and> ci_mint maxBought = ''SOL''))"

text \<open>The last part of the generic parser, on all significant changes.\<close>

definition generic_pair ::
  "string \<Rightarrow> string option \<Rightarrow> token_change list \<Rightarrow> sol_change list \<Rightarrow> trade_info option" where
  "generic_pair dexName holder tokenChanges solChanges =
     (let significantChanges =
            filter (\<lambda>i. js_gt (js_abs (ci_amount i)) (Num 0.0001)) (allChanges tokenChanges solChanges);
          sold = filter (\<lambda>i. js_lt (ci_amount i) (Num 0)) significantChanges;
          bought = filter (\<lambda>i. js_gt (ci_amount i) (Num 0)) significantChanges
      in case (sold, bought) of
           ([s], [b]) \<Rightarrow>
             Some ((mk_trade (inferTradeType (ci_mint s) (ci_mint b))
                      (item_token s True) (item_token b False) (price_field s b) holder)
                   \<lparr>dex := Some dexName, source := Some ''generic_parser''\<rparr>)
         | (s0 # srest, b0 # brest) \<Rightarrow>
             let maxSold = max_abs_item s0 srest;
                 maxBought = max_abs_item b0 brest
             in if isSOLTokenTrade maxSold maxBought
                then Some ((mk_trade (inferTradeType (ci_mint maxSold) (ci_mint maxBought))
                              (item_token maxSold True) (item_token maxBought False)
                              (price_field maxSold maxBought) holder)
                           \<lparr>dex := Some dexName, source := Some ''generic_parser'',
                            trade_note := Some MainPairExtracted\<rparr>)
                else None
         | _ \<Rightarrow> None)"

definition parseGenericTransaction :: "transaction \<Rightarrow> string \<Rightarrow> error + trade_info option" where
  "parseGenericTransaction tx dexName =
     (if is_liquidity_transaction tx then Inr None
      else
        case parseTokenBalanceChanges (meta tx) of
          Inl e \<Rightarrow> Inl e
        | Inr tokenChanges \<Rightarrow>
          case parseSOLBalanceChanges tx of
             Inl e \<Rightarrow> Inl e
           | Inr solChanges \<Rightarrow>
               let holder = getHolderAddress tx solChanges;
                   effective = swap_effective (filter significant_token tokenChanges) solChanges
               in case token_swap dexName holder effective of
                    Some t \<Rightarrow> Inr (Some t)
                  | None \<Rightarrow>
                      (case analyzeSOLTokenTrade tokenChanges solChanges of
                         Inl e \<Rightarrow> Inl e
                       | Inr (Some t) \<Rightarrow>
                           Inr (Some (t\<lparr>holderAddress :=
                                          (if \<not> truthy (holderAddress t) then holder else holderAddress t),
                                        dex := Some dexName, source := Some ''generic_parser''\<rparr>))
                       | Inr None \<Rightarrow> Inr (generic_pair dexName holder tokenChanges solChanges)))"

section \<open>SimpleCache\<close>

text \<open>
  \<^verbatim>\<open>class SimpleCache { constructor(maxSize = 1000, ttl = 3600000) ... }\<close>
  The clock \<open>Date.now()\<close> is a parameter of each operation.
\<close>

record 'v cache_item =
  item_value :: 'v
  item_timestamp :: int

record 'v SimpleCache =
  cache :: "(string, 'v cache_item) jsmap"
  maxSize :: int
  ttl :: int

definition new_SimpleCache :: "int \<Rightarrow> int \<Rightarrow> 'v SimpleCache" where
  "new_SimpleCache n t = \<lparr>cache = [], maxSize = n, ttl = t\<rparr>"

text \<open>\<open>get(key)\<close>: the stored value itself is returned; an expired entry is deleted.\<close>

definition cache_get :: "'v SimpleCache \<Rightarrow> int \<Rightarrow> string \<Rightarrow> 'v option \<times> 'v SimpleCache" where
  "cache_get c now key =
     (case Map_get (cache c) key of
        None \<Rightarrow> (None, c)
      | Some item \<Rightarrow>
          if now - item_timestamp item > ttl c
          then (None, c\<lparr>cache := Map_delete (cache c) key\<rparr>)
          else (Some (item_value item), c))"

text \<open>
  \<open>set(key, value)\<close>: when the map is full, the first key of the iteration order is
  deleted (on an empty map \<open>keys().next().value\<close> is \<open>undefined\<close> and nothing is deleted).
\<close>

definition cache_set :: "'v SimpleCache \<Rightarrow> int \<Rightarrow> string \<Rightarrow> 'v \<Rightarrow> 'v SimpleCache" where
  "cache_set c now key v =
     (let m = (if int (length (cache c)) \<ge> maxSize c
               then (case Map_keys (cache c) of [] \<Rightarrow> cache c
                     | firstKey # _ \<Rightarrow> Map_delete (cache c) firstKey)
               else cache c)
      in c\<lparr>cache := Map_set m key \<lparr>item_value = v, item_timestamp = now\<rparr>\<rparr>)"

text \<open>A run of insertions \<open>(key, value, time)\<close>, in order.\<close>

fun cache_set_all :: "'v SimpleCache \<Rightarrow> (string \<times> 'v \<times> int) list \<Rightarrow> 'v SimpleCache" where
  "cache_set_all c [] = c"
| "cache_set_all c ((k, v, t) # rest) = cache_set_all (cache_set c t k v) rest"

section \<open>Identifying the DEX\<close>

definition JUPITER_PROGRAMS :: "string list" where
  "JUPITER_PROGRAMS =
     [''JUP6LkbZbjS1jKKwapdHNy74zcZ3tLUZoi5QNyVTaV4'',
      ''JUP2jxvXaqu7NQY1GmNF4m1vodw12LVXYxbFL2uJvfo'',
      ''JUP3c2Uh3WA4Ng34tw6kPd2G4C5BB21Xo36Je1s32Ph'',
      ''JUP6i4ozu5ydDCnLiMogSckDPpbtr7BJ4FtzYWkb5Rk'',
      ''JUP4Fb2cqiRUcaTd8t5VhYu6oV5E2hbN8FdY3YbwPEsu'',
      ''JUP3c2Uh3WA4Ng34tw6kPd2G4C5BB21Xo36Je1s32Ph'']"

definition RAYDIUM_PROGRAMS :: "string list" where
  "RAYDIUM_PROGRAMS =
     [''675kPX9MHTjS2zt1qfr1NYHuzeLXfQM9H24wFSUt1Mp8'',
      ''27haf8L6oxUeXrHrgEgsexjSY5hbVUWEmvv9Nyxg8vQv'',
      ''CAMMCzo5YL8w4VFF8KVHrK22GGUsp5VTaW7grrKgrWqK'']"

definition ORCA_PROGRAMS :: "string list" where
  "ORCA_PROGRAMS =
     [''9W959DqEETiGZocYWCQPaJ6sBmUzgfxXfqGeTEdp3aQP'',
      ''whirLbMiicVdio4qvUfM5KAg6Ct8VwpYzGff3uctyCc'',
      ''DjVE6JNiYqPL2QXyCUUh8rNjHrbz9hXHNYt99MQ59qw1'']"

definition PUMP_FUN_PROGRAM_ID :: string where
  "PUMP_FUN_PROGRAM_ID = ''pAMMBay6oceH9fJKBRHGP5D4bD4sWpmSwMn52FMfXEA''"

definition METEORA_PROGRAMS :: "string list" where
  "METEORA_PROGRAMS =
     [''LBUZKhRxPF3XUpBCjp4YzTKgLccjZhTSDM9YuVaPwxo'',
      ''Eo7WjKq67rjJQSZxS6z3YkapzY3eMj6Xy8X5EQVn5UWAi'',
      ''24Uqj9JQxErmqU6wvJzKqJqJqJqJqJqJqJqJqJqJqJqJq'']"

text \<open>\<open>DEX_PROGRAMS\<close> in the priority order of \<open>identifyDEX\<close>, with the lower-case names.\<close>

definition priorityDEXs :: "(string \<times> string list) list" where
  "priorityDEXs =
     [(''pump_fun'', [PUMP_FUN_PROGRAM_ID]), (''raydium'', RAYDIUM_PROGRAMS),
      (''orca'', ORCA_PROGRAMS), (''jupiter'', JUPITER_PROGRAMS),
      (''meteora'', METEORA_PROGRAMS), (''dflow'', [])]"

definition getProgramId :: "instruction \<Rightarrow> account_key list option \<Rightarrow> string option" where
  "getProgramId ix keys =
     (if truthy (programId ix) then programId ix
      else case (programIdIndex ix, keys) of
             (Some i, Some ks) \<Rightarrow>
               if i < length ks
               then (case ks ! i of
                       KeyString s \<Rightarrow> if s \<noteq> [] then Some s else None
                     | KeyObject pk _ _ \<Rightarrow> Some (key_object_address pk))
               else None
           | _ \<Rightarrow> None)"

definition inner_program_ids :: "transaction \<Rightarrow> account_key list option \<Rightarrow> string list" where
  "inner_program_ids tx keys =
     concat (map (\<lambda>inner. case inner_instructions inner of None \<Rightarrow> []
                          | Some ixs \<Rightarrow> concat (map (\<lambda>ix. case getProgramId ix keys of
                                                            None \<Rightarrow> [] | Some p \<Rightarrow> [p]) ixs))
               (tx_innerInstructions tx))"

text \<open>
  The structural test of the last step:
  \<open>meta?.postBalances?.some((post, i) => Math.abs(post - (meta?.preBalances?.[i] || 0)) > 1000000)\<close>.
\<close>

definition hasSolChanges :: "tx_meta option \<Rightarrow> bool" where
  "hasSolChanges m =
     (case m of None \<Rightarrow> False
      | Some mt \<Rightarrow>
          (case postBalances mt of None \<Rightarrow> False
           | Some posts \<Rightarrow>
               list_ex (\<lambda>(i, post).
                   let pre = (case preBalances mt of None \<Rightarrow> 0
                              | Some ps \<Rightarrow> if i < length ps then ps ! i else 0)
                   in \<bar>post - pre\<bar> > 1000000)
                 (zip [0 ..< length posts] posts)))"

definition hasTokenChanges :: "tx_meta option \<Rightarrow> bool" where
  "hasTokenChanges m =
     (case m of None \<Rightarrow> False
      | Some mt \<Rightarrow> (case postTokenBalances mt of None \<Rightarrow> False | Some xs \<Rightarrow> length xs > 0))"

text \<open>
  \<open>identifyDEX\<close> reads \<open>transaction.transaction.message\<close> without a guard, so a
  transaction without it throws. The second loop of the source, over the DEXs that are not
  in the priority list, has nothing to visit: all six are in it.
\<close>

definition identifyDEX :: "transaction \<Rightarrow> error + string" where
  "identifyDEX tx =
     (case tx_transaction tx of None \<Rightarrow> Inl TypeError
      | Some d \<Rightarrow>
      (case message d of None \<Rightarrow> Inl TypeError
       | Some msg \<Rightarrow>
       (case instructions msg of None \<Rightarrow> Inl TypeError
        | Some ixs \<Rightarrow>
          let keys = accountKeys msg;
              mainProgramIds = concat (map (\<lambda>ix. case getProgramId ix keys of
                                                   None \<Rightarrow> [] | Some p \<Rightarrow> [p]) ixs);
              programIds = inner_program_ids tx keys @ mainProgramIds;
              logText = tx_logText tx
          in case find (\<lambda>(name, programs). list_ex (\<lambda>p. p \<in> set programIds) programs) priorityDEXs of
               Some (name, _) \<Rightarrow> Inr name
             | None \<Rightarrow>
                 if str_includes logText (toLowerCase PUMP_FUN_PROGRAM_ID) \<or>
                    (str_includes logText ''instruction: sell'' \<and> str_includes logText ''pamm'')
                 then Inr ''pump_fun''
                 else if str_includes logText ''meteora'' \<or> str_includes logText ''dlmm''
                 then Inr ''meteora''
                 else if str_includes logText ''dflow'' \<or> str_includes logText ''aggregator''
                 then Inr ''dflow''
                 else (case keys of None \<Rightarrow> Inl TypeError
                       | Some ks \<Rightarrow>
                           if length ixs > 3 \<and> length ks > 10 \<and>
                              hasTokenChanges (meta tx) \<and> hasSolChanges (meta tx)
                           then Inr ''jupiter'' else Inr ''unknown''))))"

section \<open>The specialized parsers\<close>

definition parseJupiterTransaction :: "transaction \<Rightarrow> error + trade_info option" where
  "parseJupiterTransaction tx =
     (case parseGenericTransaction tx ''jupiter'' of
        Inl e \<Rightarrow> Inl e
      | Inr None \<Rightarrow> Inr None
      | Inr (Some t) \<Rightarrow> Inr (Some (t\<lparr>source := Some ''jupiter_transaction''\<rparr>)))"

text \<open>
  Raydium and Orca read \<open>txData.message.instructions\<close> without a guard, then analyse the
  balance changes.
\<close>

definition message_instructions :: "transaction \<Rightarrow> error + instruction list" where
  "message_instructions tx =
     (case tx_transaction tx of None \<Rightarrow> Inl TypeError
      | Some d \<Rightarrow> (case message d of None \<Rightarrow> Inl TypeError
                   | Some msg \<Rightarrow> (case instructions msg of None \<Rightarrow> Inl TypeError
                                   | Some ixs \<Rightarrow> Inr ixs)))"

text \<open>
  \<open>this.analyzeSOLTokenTrade(this.parseTokenBalanceChanges(meta), this.parseSOLBalanceChanges(transaction))\<close>,
  the call that the Raydium, Orca and Pump.fun parsers share.
\<close>

definition analyze_transaction :: "transaction \<Rightarrow> error + trade_info option" where
  "analyze_transaction tx =
     (case parseTokenBalanceChanges (meta tx) of
        Inl e \<Rightarrow> Inl e
      | Inr tokenChanges \<Rightarrow>
          (case parseSOLBalanceChanges tx of
             Inl e \<Rightarrow> Inl e
           | Inr solChanges \<Rightarrow> analyzeSOLTokenTrade tokenChanges solChanges))"

definition parseRaydiumTransaction :: "transaction \<Rightarrow> error + trade_info option" where
  "parseRaydiumTransaction tx =
     (case message_instructions tx of
        Inl e \<Rightarrow> Inl e
      | Inr ixs \<Rightarrow>
          let swapInstruction =
                find (\<lambda>ix. programId ix = Some (hd RAYDIUM_PROGRAMS) \<and>
                           (case parsed ix of Some (ParsedObject ty) \<Rightarrow> ty = Some ''swap''
                            | _ \<Rightarrow> False)) ixs
          in case analyze_transaction tx of
               Inl e \<Rightarrow> Inl e
             | Inr None \<Rightarrow> Inr None
             | Inr (Some t) \<Rightarrow>
                 Inr (Some (t\<lparr>dex := Some ''raydium'', source := Some ''raydium_parser'',
                              hasSwapInstruction := Some (swapInstruction \<noteq> None)\<rparr>)))"

definition parseOrcaTransaction :: "transaction \<Rightarrow> error + trade_info option" where
  "parseOrcaTransaction tx =
     (case message_instructions tx of
        Inl e \<Rightarrow> Inl e
      | Inr ixs \<Rightarrow>
          let orcaIxs = filter (\<lambda>ix. case programId ix of None \<Rightarrow> False
                                     | Some p \<Rightarrow> p \<in> set ORCA_PROGRAMS) ixs
          in case analyze_transaction tx of
               Inl e \<Rightarrow> Inl e
             | Inr None \<Rightarrow> Inr None
             | Inr (Some t) \<Rightarrow>
                 Inr (Some (t\<lparr>dex := Some ''orca'', source := Some ''orca_parser'',
                              orcaInstructions := Some (length orcaIxs)\<rparr>)))"

subsection \<open>parsePumpFunTransaction\<close>

definition isSellFromLog :: "string \<Rightarrow> bool" where
  "isSellFromLog logText =
     (str_includes logText ''instruction: sell'' \<or> str_includes logText ''instruction sell'')"

definition isBuyFromLog :: "string \<Rightarrow> bool" where
  "isBuyFromLog logText =
     (str_includes logText ''instruction: buy'' \<or> str_includes logText ''instruction buy'')"

text \<open>The direction stated by the log replaces the direction found from the balances.\<close>

definition flip_trade :: "trade_type \<Rightarrow> trade_info \<Rightarrow> trade_info" where
  "flip_trade ty t =
     t\<lparr>soldToken := boughtToken t, boughtToken := soldToken t, ttype := ty,
       price := Some (js_div (amount (soldToken t)) (amount (boughtToken t)))\<rparr>"

definition apply_log_direction :: "string \<Rightarrow> trade_info \<Rightarrow> trade_info" where
  "apply_log_direction logText t =
     (if isSellFromLog logText \<and> ttype t = Buy then flip_trade Sell t
      else if isBuyFromLog logText \<and> ttype t = Sell then flip_trade Buy t
      else t)"

definition pump_main_count :: "instruction list \<Rightarrow> account_key list option \<Rightarrow> nat" where
  "pump_main_count ixs keys =
     length (filter (\<lambda>ix. getProgramId ix keys = Some PUMP_FUN_PROGRAM_ID) ixs)"

definition pump_inner_count :: "transaction \<Rightarrow> account_key list option \<Rightarrow> nat" where
  "pump_inner_count tx keys =
     length (filter (\<lambda>p. p = PUMP_FUN_PROGRAM_ID) (inner_program_ids tx keys))"

definition parsePumpFunTransaction :: "transaction \<Rightarrow> error + trade_info option" where
  "parsePumpFunTransaction tx =
     (case tx_transaction tx of None \<Rightarrow> Inl TypeError
      | Some d \<Rightarrow>
      (case message d of None \<Rightarrow> Inl TypeError
       | Some msg \<Rightarrow>
       (case instructions msg of None \<Rightarrow> Inl TypeError
        | Some ixs \<Rightarrow>
          let keys = accountKeys msg;
              mainCount = pump_main_count ixs keys;
              innerCount = pump_inner_count tx keys;
              logText = tx_logText tx;
              hasPumpFunInLogs = str_includes logText (toLowerCase PUMP_FUN_PROGRAM_ID)
          in if mainCount = 0 \<and> innerCount = 0 \<and> \<not> hasPumpFunInLogs then Inr None
             else (case analyze_transaction tx of
                     Inl e \<Rightarrow> Inl e
                   | Inr None \<Rightarrow> Inr None
                   | Inr (Some t) \<Rightarrow>
                       Inr (Some ((apply_log_direction logText t)
                              \<lparr>dex := Some ''pump_fun_amm'', source := Some ''pump_fun_parser'',
                               platform := Some ''pump.fun'',
                               pumpInstructions := Some (mainCount + innerCount),
                               routed := Some (innerCount > 0)\<rparr>))))))"

section \<open>parseTrade\<close>

text \<open>
  The collaborators: the RPC connection and the Jupiter HTTP API. A promise that rejects
  (a call that throws) is \<open>None\<close>; \<open>getParsedTransaction\<close> may also resolve to
  \<open>null\<close>, and so may each element of \<open>getParsedTransactions\<close>.
\<close>

record jupiter_data =
  inputMint :: "string option"
  outputMint :: "string option"
  inputAmount :: "jsnum option"
  outputAmount :: "jsnum option"
  inputDecimals :: "nat option"
  outputDecimals :: "nat option"
  inputSymbol :: "string option"
  outputSymbol :: "string option"
  jd_price :: "jsnum option"
  jd_fee :: "jsnum option"

datatype jupiter_response = FetchFailed | HttpError | HttpOk "jupiter_data option"

record rpc =
  getParsedTransaction :: "string \<Rightarrow> transaction option option"
  getParsedTransactions :: "string list \<Rightarrow> transaction option list option"
  jupiterFetch :: "string \<Rightarrow> jupiter_response"

text \<open>
  The state of the parser singleton: its cache, and the requests it has sent so far
  (signatures looked up at the Jupiter API, signatures fetched one by one). The clock is
  fixed during a run.
\<close>

record world =
  parser_cache :: "trade_info SimpleCache"
  api_calls :: "string list"
  fetch_calls :: "string list"
  clock :: int

fun js_le :: "jsnum \<Rightarrow> jsnum \<Rightarrow> bool" where
  "js_le (Num x) (Num y) = (x \<le> y)"
| "js_le NaN _ = False"
| "js_le _ NaN = False"
| "js_le NegInf _ = True"
| "js_le _ PosInf = True"
| "js_le _ _ = False"

definition decimals_or6 :: "nat option \<Rightarrow> nat" where
  "decimals_or6 d = (case d of None \<Rightarrow> 6 | Some n \<Rightarrow> if n = 0 then 6 else n)"

definition symbol_or_unknown :: "string option \<Rightarrow> string" where
  "symbol_or_unknown s = (if truthy s then str_of s else ''Unknown'')"

definition parseJupiterViaAPI :: "jupiter_response \<Rightarrow> trade_info option" where
  "parseJupiterViaAPI resp =
     (case resp of
        HttpOk (Some data) \<Rightarrow>
          if \<not> truthy (inputMint data) \<or> \<not> truthy (outputMint data) then None
          else
            let inAmt = js_div (case inputAmount data of None \<Rightarrow> NaN | Some a \<Rightarrow> a)
                          (Num (10 ^ decimals_or6 (inputDecimals data)));
                outAmt = js_div (case outputAmount data of None \<Rightarrow> NaN | Some a \<Rightarrow> a)
                           (Num (10 ^ decimals_or6 (outputDecimals data)))
            in if js_le inAmt (Num 0) \<or> js_le outAmt (Num 0) then None
               else if inputMint data = Some SOL_MINT \<and> js_lt inAmt (Num 0.01) then None
               else Some ((mk_trade
                      (inferTradeType (str_of (inputMint data)) (str_of (outputMint data)))
                      \<lparr>mint = str_of (inputMint data), symbol = symbol_or_unknown (inputSymbol data),
                       amount = inAmt, decimals = decimals_or6 (inputDecimals data)\<rparr>
                      \<lparr>mint = str_of (outputMint data), symbol = symbol_or_unknown (outputSymbol data),
                       amount = outAmt, decimals = decimals_or6 (outputDecimals data)\<rparr>
                      (jd_price data) None)
                    \<lparr>fee := jd_fee data, dex := Some ''jupiter'', source := Some ''jupiter_api''\<rparr>)
      | _ \<Rightarrow> None)"

text \<open>The holder address of a Jupiter API result, filled in from the transaction.\<close>

definition backfill_holder :: "transaction \<Rightarrow> trade_info \<Rightarrow> error + trade_info" where
  "backfill_holder tx jt =
     (if truthy (holderAddress jt) then Inr jt
      else case first_signer_key (case tx_accountKeys tx of None \<Rightarrow> [] | Some ks \<Rightarrow> ks) of
             Some a \<Rightarrow> Inr (jt\<lparr>holderAddress := Some a\<rparr>)
           | None \<Rightarrow>
               (case parseSOLBalanceChanges tx of
                  Inl e \<Rightarrow> Inl e
                | Inr solChanges \<Rightarrow>
                    (case find isSigner solChanges of
                       Some c \<Rightarrow> Inr (jt\<lparr>holderAddress := Some (account c)\<rparr>)
                     | None \<Rightarrow>
                         (case solChanges of
                            c # _ \<Rightarrow> Inr (jt\<lparr>holderAddress := Some (account c)\<rparr>)
                          | [] \<Rightarrow> Inr jt))))"

text \<open>The \<open>switch (dexType)\<close> of \<open>parseTrade\<close>.\<close>

definition parse_by_dex :: "string \<Rightarrow> transaction \<Rightarrow> error + trade_info option" where
  "parse_by_dex dexType tx =
     (if dexType = ''jupiter'' then parseJupiterTransaction tx
      else if dexType = ''raydium'' then parseRaydiumTransaction tx
      else if dexType = ''orca'' then parseOrcaTransaction tx
      else if dexType = ''pump_fun'' then parsePumpFunTransaction tx
      else parseGenericTransaction tx ''unknown'')"

definition stamp :: "string \<Rightarrow> transaction \<Rightarrow> trade_info \<Rightarrow> trade_info" where
  "stamp sig tx t =
     t\<lparr>signature := Some sig,
       timestamp := (case blockTime tx of None \<Rightarrow> None
                     | Some b \<Rightarrow> if b = 0 then None else Some (b * 1000)),
       trade_slot := slot tx\<rparr>"

definition remember :: "bool \<Rightarrow> string \<Rightarrow> trade_info \<Rightarrow> world \<Rightarrow> world" where
  "remember useCache sig t w =
     (if useCache then w\<lparr>parser_cache := cache_set (parser_cache w) (clock w) sig t\<rparr> else w)"

text \<open>Both the API and the chain answered: Pump.fun transactions are parsed from the chain.\<close>

definition jupiter_path ::
  "bool \<Rightarrow> string \<Rightarrow> trade_info \<Rightarrow> transaction \<Rightarrow> world \<Rightarrow> trade_info option \<times> world" where
  "jupiter_path useCache sig jt tx w =
     (case identifyDEX tx of
        Inl e \<Rightarrow> (None, w)
      | Inr dexType \<Rightarrow>
          (case (if dexType = ''pump_fun'' then parsePumpFunTransaction tx else Inr None) of
             Inl e \<Rightarrow> (None, w)
           | Inr (Some pumpFunTrade) \<Rightarrow> (Some pumpFunTrade, remember useCache sig pumpFunTrade w)
           | Inr None \<Rightarrow>
               (case backfill_holder tx jt of
                  Inl e \<Rightarrow> (None, w)
                | Inr jt' \<Rightarrow> (Some jt', remember useCache sig jt' w))))"

definition transaction_path ::
  "bool \<Rightarrow> string \<Rightarrow> transaction \<Rightarrow> world \<Rightarrow> trade_info option \<times> world" where
  "transaction_path useCache sig tx w =
     (case identifyDEX tx of
        Inl e \<Rightarrow> (None, w)
      | Inr dexType \<Rightarrow>
          (case parse_by_dex dexType tx of
             Inl e \<Rightarrow> (None, w)
           | Inr None \<Rightarrow> (None, w)
           | Inr (Some t) \<Rightarrow> (Some (stamp sig tx t), remember useCache sig (stamp sig tx t) w)))"

text \<open>
  \<open>parseTrade(signature, {useJupiterAPI, useCache})\<close>. Every exception inside is caught
  and turned into \<open>null\<close>.
\<close>

definition parseTrade ::
  "rpc \<Rightarrow> world \<Rightarrow> string \<Rightarrow> bool \<Rightarrow> bool \<Rightarrow> trade_info option \<times> world" where
  "parseTrade r w sig useJupiterAPI useCache =
     (let (cached, w1) =
            (if useCache
             then (let (v, c') = cache_get (parser_cache w) (clock w) sig
                   in (v, w\<lparr>parser_cache := c'\<rparr>))
             else (None, w))
      in case cached of
           Some t \<Rightarrow> (Some t, w1)
         | None \<Rightarrow>
             let jupiterTrade =
                   (if useJupiterAPI then parseJupiterViaAPI (jupiterFetch r sig) else None);
                 w2 = (if useJupiterAPI then w1\<lparr>api_calls := api_calls w1 @ [sig]\<rparr> else w1);
                 tx = (case getParsedTransaction r sig of None \<Rightarrow> None | Some t \<Rightarrow> t);
                 w3 = w2\<lparr>fetch_calls := fetch_calls w2 @ [sig]\<rparr>
             in case tx of
                  None \<Rightarrow> (None, w3)
                | Some t \<Rightarrow>
                    (case jupiterTrade of
                       Some jt \<Rightarrow> jupiter_path useCache sig jt t w3
                     | None \<Rightarrow> transaction_path useCache sig t w3))"

section \<open>The batch pipeline\<close>

definition isSOL :: "string \<Rightarrow> bool" where
  "isSOL m = (m = SOL_MINT \<or> m = ''SOL'')"

definition TOKEN_SYMBOL_MAP :: "(string \<times> string) list" where
  "TOKEN_SYMBOL_MAP =
     [(''EPjFWdd5AufqSSqeM2qN1xzybapC8G4wEGGkZwyTDt1v'', ''USDC''),
      (''FkimKUQhh72rJKxSD6awD7KUdf6yYwhz2weBrRgvSYbX'', ''USDC''),
      (''Es9vMFrzaCERmJfrF4H2FYD4KCoNkY11McCe8BenwNYB'', ''USDT''),
      (''So11111111111111111111111111111111111111112'', ''SOL'')]"

definition getTokenSymbol :: "string \<Rightarrow> string \<Rightarrow> string" where
  "getTokenSymbol m defaultSymbol =
     (if m = [] then (if defaultSymbol \<noteq> [] then defaultSymbol else ''Unknown'')
      else if isSOL m then ''SOL''
      else case map_of TOKEN_SYMBOL_MAP m of
             Some known \<Rightarrow> known
           | None \<Rightarrow>
               if defaultSymbol \<noteq> [] \<and> defaultSymbol \<noteq> ''Token'' \<and> defaultSymbol \<noteq> ''Unknown''
               then defaultSymbol else ''Unknown'')"

text \<open>The simplified trade object that the pipeline puts into its result map.\<close>

record trade_result =
  r_type :: trade_type
  r_dex :: "string option"
  r_source :: "string option"
  r_soldToken :: token_info
  r_boughtToken :: token_info
  r_price :: "jsnum option"
  r_fee :: "jsnum option"
  r_holderAddress :: "string option"

definition fee_or_null :: "jsnum option \<Rightarrow> jsnum option" where
  "fee_or_null f =
     (case f of
        Some (Num x) \<Rightarrow> if x = 0 then None else Some (Num x)
      | Some PosInf \<Rightarrow> Some PosInf
      | Some NegInf \<Rightarrow> Some NegInf
      | _ \<Rightarrow> None)"

definition resymbol :: "token_info \<Rightarrow> token_info" where
  "resymbol t = t\<lparr>symbol := getTokenSymbol (mint t) (symbol t)\<rparr>"

definition summarize :: "bool \<Rightarrow> trade_info \<Rightarrow> trade_result" where
  "summarize withHolder t =
     \<lparr>r_type = ttype t, r_dex = dex t, r_source = source t,
      r_soldToken = resymbol (soldToken t), r_boughtToken = resymbol (boughtToken t),
      r_price = price t, r_fee = fee_or_null (fee t),
      r_holderAddress = (if withHolder then js_or (holderAddress t) None else None)\<rparr>"

text \<open>
  \<open>parseTradeInfoInternal\<close>: one signature, fetched and parsed by \<open>parseTrade\<close> with
  \<open>useJupiterAPI: false, useCache: true\<close>.
\<close>

definition parseTradeInfoInternal :: "rpc \<Rightarrow> world \<Rightarrow> string \<Rightarrow> trade_result option \<times> world" where
  "parseTradeInfoInternal r w sig =
     (let (t, w') = parseTrade r w sig False True in (map_option (summarize False) t, w'))"

text \<open>
  \<open>parseTradeFromTransactionSync\<close>. Its \<open>catch\<close> block reads \<open>isDebugSignature\<close>,
  which is declared nowhere, so an exception inside leaves as a \<open>ReferenceError\<close>.
\<close>

definition parse_by_dex_sync :: "string \<Rightarrow> transaction \<Rightarrow> error + trade_info option" where
  "parse_by_dex_sync dexType tx =
     (if dexType = ''jupiter'' then parseJupiterTransaction tx
      else if dexType = ''raydium'' then parseRaydiumTransaction tx
      else if dexType = ''orca'' then parseOrcaTransaction tx
      else if dexType = ''pump_fun'' then parsePumpFunTransaction tx
      else if dexType = ''meteora'' then parseGenericTransaction tx ''Meteora DLMM''
      else if dexType = ''dflow'' then parseGenericTransaction tx ''DFlow Aggregator''
      else parseGenericTransaction tx ''unknown'')"

definition parseTradeFromTransactionSync ::
  "string \<Rightarrow> transaction option \<Rightarrow> error + trade_result option" where
  "parseTradeFromTransactionSync sig txo =
     (case txo of
        None \<Rightarrow> Inr None
      | Some tx \<Rightarrow>
          if tx_transaction tx = None \<or> meta tx = None then Inr None
          else (case identifyDEX tx of
                  Inl e \<Rightarrow> Inl ReferenceError
                | Inr dexType \<Rightarrow>
                    (case parse_by_dex_sync dexType tx of
                       Inl e \<Rightarrow> Inl ReferenceError
                     | Inr None \<Rightarrow> Inr None
                     | Inr (Some t) \<Rightarrow> Inr (Some (summarize True (stamp sig tx t))))))"

text \<open>
  The fallback after a failed bulk fetch: every signature of the batch goes through
  \<open>parseTradeInfoInternal\<close>. The source starts these calls together and awaits them with
  \<open>Promise.allSettled\<close>; the model runs them one after the other, in batch order.
\<close>

fun fallback_settle :: "rpc \<Rightarrow> string list \<Rightarrow> world \<Rightarrow> (string \<times> trade_result option) list \<times> world" where
  "fallback_settle r [] w = ([], w)"
| "fallback_settle r (sig # rest) w =
     (let (t, w1) = parseTradeInfoInternal r w sig;
          (ts, w2) = fallback_settle r rest w1
      in ((sig, t) # ts, w2))"

definition set_results ::
  "(string, trade_result) jsmap \<Rightarrow> (string \<times> trade_result option) list \<Rightarrow> (string, trade_result) jsmap" where
  "set_results results rs =
     foldl (\<lambda>m (sig, t). case t of None \<Rightarrow> m | Some x \<Rightarrow> Map_set m sig x) results rs"

text \<open>One iteration of the loop over the batches.\<close>

definition process_batch ::
  "rpc \<Rightarrow> string list \<Rightarrow> (string, trade_result) jsmap \<times> world \<Rightarrow> (string, trade_result) jsmap \<times> world" where
  "process_batch r batch st =
     (case getParsedTransactions r batch of
        Some transactions \<Rightarrow>
          if transactions = [] then st
          else
            let batchResults =
                  map (\<lambda>(index, sig).
                         (sig, case (if index < length transactions then transactions ! index else None) of
                                 None \<Rightarrow> None
                               | Some tx \<Rightarrow>
                                   (case parseTradeFromTransactionSync sig (Some tx) of
                                      Inl e \<Rightarrow> None | Inr res \<Rightarrow> res)))
                    (zip [0 ..< length batch] batch)
            in (set_results (fst st) batchResults, snd st)
      | None \<Rightarrow>
          let (fallbackResults, w') = fallback_settle r batch (snd st)
          in (set_results (fst st) fallbackResults, w'))"

function batch_loop ::
  "rpc \<Rightarrow> nat \<Rightarrow> string list \<Rightarrow> nat \<Rightarrow> (string, trade_result) jsmap \<times> world
     \<Rightarrow> (string, trade_result) jsmap \<times> world" where
  "batch_loop r batchSize signatures i st =
     (if i < length signatures \<and> 0 < batchSize
      then batch_loop r batchSize signatures (i + batchSize)
             (process_batch r (take batchSize (drop i signatures)) st)
      else st)"
  by pat_completeness auto
termination
  by (relation "measure (\<lambda>(r, batchSize, signatures, i, st). length signatures - i)") auto

text \<open>
  \<open>parseMultipleTradeInfo(signatures, concurrency = 50)\<close>. With more than 50 signatures
  and a \<open>concurrency\<close> that is not positive the loop index never advances and the call
  does not return: that is the value \<open>None\<close>.
\<close>

definition parseMultipleTradeInfo ::
  "rpc \<Rightarrow> world \<Rightarrow> string list \<Rightarrow> int \<Rightarrow> ((string, trade_result) jsmap \<times> world) option" where
  "parseMultipleTradeInfo r w signatures concurrency =
     (if signatures = [] then Some ([], w)
      else
        let batchSize = (if length signatures \<le> 50 then int (length signatures) else min concurrency 50)
        in if batchSize \<le> 0 then None
           else Some (batch_loop r (nat batchSize) signatures 0 ([], w)))"

section \<open>Cached outcomes as shared objects\<close>

text \<open>
  A trade outcome is a JavaScript object; what the cache stores and what \<open>parseTrade\<close>
  returns is a reference to it. To follow the aliasing, the cache is instantiated with
  references as values, next to a store that maps each reference to its object.
\<close>

type_synonym ref = nat

record object_world =
  heap :: "ref \<Rightarrow> trade_info option"
  ref_cache :: "ref SimpleCache"

text \<open>The first lines of \<open>parseTrade\<close>: \<open>const cached = this.cache.get(signature); if (cached) return cached;\<close>\<close>

definition parseTrade_cached :: "object_world \<Rightarrow> int \<Rightarrow> string \<Rightarrow> ref option \<times> object_world" where
  "parseTrade_cached w now sig =
     (let (v, c') = cache_get (ref_cache w) now sig in (v, w\<lparr>ref_cache := c'\<rparr>))"

text \<open>A caller assigning to a field of the object it got: \<open>outcome.field = ...\<close>\<close>

definition mutate :: "object_world \<Rightarrow> ref \<Rightarrow> (trade_info \<Rightarrow> trade_info) \<Rightarrow> object_world" where
  "mutate w p f = w\<lparr>heap := (heap w)(p := map_option f (heap w p))\<rparr>"

text \<open>What a caller observes through a reference.\<close>

definition deref :: "object_world \<Rightarrow> ref option \<Rightarrow> trade_info option" where
  "deref w p = (case p of None \<Rightarrow> None | Some q \<Rightarrow> heap w q)"

section \<open>Example transactions\<close>

text \<open>A transaction with one message, the given account keys, balances and log lines.\<close>

definition mk_tx ::
  "account_key list \<Rightarrow> nat \<Rightarrow> int list \<Rightarrow> int list \<Rightarrow> token_balance list \<Rightarrow> token_balance list
     \<Rightarrow> string list \<Rightarrow> transaction" where
  "mk_tx keys nsig pres posts tpres tposts logs =
     \<lparr>tx_transaction = Some \<lparr>message = Some \<lparr>accountKeys = Some keys, instructions = Some [],
          numRequiredSignatures = Some nsig\<rparr>\<rparr>,
      meta = Some \<lparr>preBalances = Some pres, postBalances = Some posts,
         preTokenBalances = Some (map Some tpres), postTokenBalances = Some (map Some tposts),
         innerInstructions = None, logMessages = Some logs, loadedAddresses = None\<rparr>,
      blockTime = Some 1700000000, slot = Some 5\<rparr>"

definition token_bal :: "string \<Rightarrow> string \<Rightarrow> rat \<Rightarrow> token_balance" where
  "token_bal ownr mnt amt =
     \<lparr>tb_owner = Some ownr, tb_mint = Some mnt,
      uiTokenAmount = Some \<lparr>uiAmount = Some (Num amt), ui_decimals = Some 6\<rparr>\<rparr>"

text \<open>The wallet's native balance grows by a single lamport.\<close>

definition dust_tx :: transaction where
  "dust_tx = mk_tx [KeyString ''Wallet''] 1 [1000000000] [1000000001] [] [] []"

text \<open>
  A purchase on Pump.fun: the wallet pays 1.5 SOL and receives 1000000 units of the token
  \<open>MintM\<close>; the log names the Pump.fun program and states the instruction.
\<close>

definition pump_buy_tx :: "string list \<Rightarrow> transaction" where
  "pump_buy_tx logs =
     mk_tx [KeyString ''Wallet''] 1 [2000000000] [500000000]
       [] [token_bal ''Wallet'' ''MintM'' 1000000] logs"

definition pump_log :: string where
  "pump_log = ''Program pAMMBay6oceH9fJKBRHGP5D4bD4sWpmSwMn52FMfXEA invoke [1]''"

text \<open>An outcome object stored in the cache.\<close>

definition sample_trade :: trade_info where
  "sample_trade =
     mk_trade Buy \<lparr>mint = SOL_MINT, symbol = ''SOL'', amount = Num 1.5, decimals = 9\<rparr>
       \<lparr>mint = ''MintM'', symbol = ''Token'', amount = Num 1000000, decimals = 6\<rparr>
       (Some (Num (3 / 2000000))) (Some ''Wallet'')"

definition sample_world :: object_world where
  "sample_world =
     \<lparr>heap = (\<lambda>p. if p = 7 then Some sample_trade else None),
      ref_cache = \<lparr>cache = [(''sig1'', \<lparr>item_value = 7, item_timestamp = 1000\<rparr>)],
                   maxSize = 500, ttl = 3600000\<rparr>\<rparr>"

text \<open>
  A purchase from a pool: the wallet pays 1.5 SOL, which the pool's SOL account receives,
  and the wallet receives 1000000 units of \<open>MintM\<close> from the pool authority.
\<close>

definition pool_buy_tokens :: "token_change list" where
  "pool_buy_tokens =
     [\<lparr>tc_mint = ''MintM'', tc_owner = ''PoolAuthority'', preAmount = Num 5000000,
       postAmount = Num 4000000, tc_change = Num (- 1000000), tc_decimals = 6\<rparr>,
      \<lparr>tc_mint = ''MintM'', tc_owner = ''Wallet'', preAmount = Num 0,
       postAmount = Num 1000000, tc_change = Num 1000000, tc_decimals = 6\<rparr>]"

definition pool_buy_sols :: "sol_change list" where
  "pool_buy_sols =
     [\<lparr>account = ''Wallet'', preBalance = Num 2, postBalance = Num 0.5,
       sc_change = Num (- 1.5), isSigner = True, isWritable = True\<rparr>,
      \<lparr>account = ''PoolSolAccount'', preBalance = Num 10, postBalance = Num 11.5,
       sc_change = Num 1.5, isSigner = False, isWritable = True\<rparr>]"

text \<open>The wallet pays 0.00005 SOL, less than the analysis threshold, for 1000 units.\<close>

definition small_buy_tx :: transaction where
  "small_buy_tx =
     mk_tx [KeyString ''Wallet''] 1 [1000000000] [999950000]
       [] [token_bal ''Wallet'' ''MintM'' 1000] []"




text \<open>
  Three token changes and no native change: \<open>OwnerA\<close> gives up 5 units of \<open>MintA\<close>,
  \<open>OwnerB\<close> receives 3 units of \<open>MintB\<close> and 2 units of \<open>MintC\<close>.
\<close>

definition multi_token_tx :: transaction where
  "multi_token_tx =
     mk_tx [KeyString ''OwnerA'', KeyString ''OwnerB''] 1 [1000000000, 1000000000]
       [1000000000, 1000000000]
       [token_bal ''OwnerA'' ''MintA'' 5]
       [token_bal ''OwnerA'' ''MintA'' 0, token_bal ''OwnerB'' ''MintB'' 3,
        token_bal ''OwnerB'' ''MintC'' 2] []"

definition multi_token_changes :: "token_change list" where
  "multi_token_changes =
     [\<lparr>tc_mint = ''MintA'', tc_owner = ''OwnerA'', preAmount = Num 5, postAmount = Num 0,
       tc_change = Num (- 5), tc_decimals = 6\<rparr>,
      \<lparr>tc_mint = ''MintB'', tc_owner = ''OwnerB'', preAmount = Num 0, postAmount = Num 3,
       tc_change = Num 3, tc_decimals = 6\<rparr>,
      \<lparr>tc_mint = ''MintC'', tc_owner = ''OwnerB'', preAmount = Num 0, postAmount = Num 2,
       tc_change = Num 2, tc_decimals = 6\<rparr>]"

text \<open>
  A transfer of native balance that is split: the sender pays 1 SOL, of which one account
  receives 0.6 and another 0.4. No token moves.
\<close>

definition sol_split_tx :: transaction where
  "sol_split_tx =
     mk_tx [KeyString ''Sender'', KeyString ''First'', KeyString ''Second''] 1
       [2000000000, 0, 0] [1000000000, 600000000, 400000000] [] [] []"

definition sol_split_changes :: "sol_change list" where
  "sol_split_changes =
     [\<lparr>account = ''Sender'', preBalance = Num 2, postBalance = Num 1,
       sc_change = Num (- 1), isSigner = True, isWritable = False\<rparr>,
      \<lparr>account = ''First'', preBalance = Num 0, postBalance = Num (3 / 5),
       sc_change = Num (3 / 5), isSigner = False, isWritable = False\<rparr>,
      \<lparr>account = ''Second'', preBalance = Num 0, postBalance = Num (2 / 5),
       sc_change = Num (2 / 5), isSigner = False, isWritable = False\<rparr>]"

text \<open>
  Two token accounts of different owners change and no native balance does: \<open>OwnerA\<close>
  gives up 10 units of \<open>MintM\<close>, \<open>OwnerB\<close> receives 20 units of \<open>MintN\<close>. The generic
  parser finds one decrease and one increase and builds its outcome from this pair.
\<close>

definition two_owner_tx :: transaction where
  "two_owner_tx =
     mk_tx [KeyString ''Payer''] 1 [1000000000] [1000000000]
       [token_bal ''OwnerA'' ''MintM'' 10, token_bal ''OwnerB'' ''MintN'' 0]
       [token_bal ''OwnerA'' ''MintM'' 0, token_bal ''OwnerB'' ''MintN'' 20] []"

definition two_owner_changes :: "token_change list" where
  "two_owner_changes =
     [\<lparr>tc_mint = ''MintM'', tc_owner = ''OwnerA'', preAmount = Num 10, postAmount = Num 0,
       tc_change = Num (- 10), tc_decimals = 6\<rparr>,
      \<lparr>tc_mint = ''MintN'', tc_owner = ''OwnerB'', preAmount = Num 0, postAmount = Num 20,
       tc_change = Num 20, tc_decimals = 6\<rparr>]"

definition two_owner_outcome :: trade_info where
  "two_owner_outcome =
     (mk_trade Swap \<lparr>mint = ''MintM'', symbol = ''Token'', amount = Num 10, decimals = 6\<rparr>
        \<lparr>mint = ''MintN'', symbol = ''Token'', amount = Num 20, decimals = 6\<rparr>
        (Some (Num 2)) None)
     \<lparr>dex := Some ''unknown'', source := Some ''generic_parser''\<rparr>"

text \<open>What \<open>parseTrade\<close> gets from the chain: a rejected fetch counts as \<open>null\<close>.\<close>

definition fetched :: "rpc \<Rightarrow> string \<Rightarrow> transaction option" where
  "fetched r sig = (case getParsedTransaction r sig of None \<Rightarrow> None | Some t \<Rightarrow> t)"

text \<open>
  Collaborators for the batch examples: the bulk fetch always throws, the single fetch
  finds the Pump.fun purchase for \<open>sig1\<close> and nothing for any other signature, and the
  Jupiter API knows the trade of every signature.
\<close>

definition jupiter_answer :: jupiter_data where
  "jupiter_answer =
     \<lparr>inputMint = Some SOL_MINT, outputMint = Some ''MintM'',
      inputAmount = Some (Num 1500000000), outputAmount = Some (Num 1000000000000),
      inputDecimals = Some 9, outputDecimals = Some 6,
      inputSymbol = Some ''SOL'', outputSymbol = Some ''MEME'',
      jd_price = Some (Num (3 / 2000000)), jd_fee = None\<rparr>"

definition failing_bulk_rpc :: rpc where
  "failing_bulk_rpc =
     \<lparr>getParsedTransaction = (\<lambda>sig. if sig = ''sig1'' then Some (Some (pump_buy_tx [])) else Some None),
      getParsedTransactions = (\<lambda>sigs. None),
      jupiterFetch = (\<lambda>sig. HttpOk (Some jupiter_answer))\<rparr>"

definition fresh_world :: world where
  "fresh_world =
     \<lparr>parser_cache = new_SimpleCache 500 3600000, api_calls = [], fetch_calls = [], clock = 0\<rparr>"

text \<open>The wallet's transaction without the pre-balance array.\<close>

definition no_pre_balances_tx :: transaction where
  "no_pre_balances_tx =
     \<lparr>tx_transaction = Some \<lparr>message = Some \<lparr>accountKeys = Some [KeyString ''Wallet''],
          instructions = Some [], numRequiredSignatures = Some 1\<rparr>\<rparr>,
      meta = Some \<lparr>preBalances = None, postBalances = Some [1000000001],
         preTokenBalances = None, postTokenBalances = None,
         innerInstructions = None, logMessages = None, loadedAddresses = None\<rparr>,
      blockTime = None, slot = None\<rparr>"

text \<open>
  The signer pays 10 SOL, of which the pool's account receives 4, and receives 5 units of
  \<open>MintM\<close> that the pool gives up: the largest decrease is native, the largest increase
  is a token.
\<close>

definition native_token_tx :: transaction where
  "native_token_tx =
     mk_tx [KeyString ''Signer'', KeyString ''Pool''] 1 [10000000000, 1000000000]
       [0, 5000000000]
       [token_bal ''Pool'' ''MintM'' 5]
       [token_bal ''Pool'' ''MintM'' 0, token_bal ''Signer'' ''MintM'' 5] []"

text \<open>
  The last lines of \<open>parseTrade\<close> on references:
  \<open>this.cache.set(signature, tradeInfo); return tradeInfo;\<close>
\<close>

definition remember_object :: "object_world \<Rightarrow> int \<Rightarrow> string \<Rightarrow> ref \<Rightarrow> ref \<times> object_world" where
  "remember_object w now sig p = (p, w\<lparr>ref_cache := cache_set (ref_cache w) now sig p\<rparr>)"

section \<open>Properties of the cache\<close>

lemma Map_set_fresh: "k \<notin> set (map fst m) \<Longrightarrow> Map_set m k v = m @ [(k, v)]"
  by (induction m) auto

lemma Map_delete_head:
  "distinct (map fst (p # ps)) \<Longrightarrow> Map_delete (p # ps) (fst p) = ps"
  by (auto simp: Map_delete_def filter_id_conv rev_image_eqI)

lemma cache_set_keys_fresh:
  assumes "distinct (Map_keys (cache c))" and "key \<notin> set (Map_keys (cache c))"
    and "maxSize c \<ge> 1"
  shows "Map_keys (cache (cache_set c now key v)) =
           (if int (length (cache c)) \<ge> maxSize c then tl (Map_keys (cache c)) else Map_keys (cache c)) @ [key]"
proof (cases "cache c")
  case Nil
  with assms show ?thesis by (simp add: cache_set_def Map_keys_def)
next
  case (Cons p ps)
  with assms have d: "Map_delete (cache c) (fst p) = ps"
    using Map_delete_head [of p ps] by (simp add: Map_keys_def)
  from Cons assms have "key \<notin> set (map fst ps)" "key \<notin> set (map fst (cache c))"
    by (auto simp: Map_keys_def)
  with Cons d show ?thesis
    by (simp add: cache_set_def Map_keys_def Map_set_fresh)
qed

lemma cache_set_maxSize [simp]: "maxSize (cache_set c now key v) = maxSize c"
  by (simp add: cache_set_def Let_def)

lemma cache_set_all_keys:
  assumes "maxSize c \<ge> 1"
    and "distinct (Map_keys (cache c) @ map fst kvs)"
    and "int (length (cache c)) \<le> maxSize c"
  shows "Map_keys (cache (cache_set_all c kvs)) =
           drop (length (cache c) + length kvs - nat (maxSize c)) (Map_keys (cache c) @ map fst kvs)"
  using assms
proof (induction kvs arbitrary: c)
  case Nil
  then show ?case by simp
next
  case (Cons a kvs)
  obtain k v t where a: "a = (k, v, t)" by (cases a)
  let ?c' = "cache_set c t k v"
  have fresh: "k \<notin> set (Map_keys (cache c))" and dist: "distinct (Map_keys (cache c))"
    using Cons.prems(2) a by auto
  have keys': "Map_keys (cache ?c') =
      (if int (length (cache c)) \<ge> maxSize c then tl (Map_keys (cache c)) else Map_keys (cache c)) @ [k]"
    using cache_set_keys_fresh [OF dist fresh Cons.prems(1)] .
  have len: "length (cache ?c') = length (Map_keys (cache ?c'))"
    by (simp add: Map_keys_def)
  have lenc: "length (Map_keys (cache c)) = length (cache c)"
    by (simp add: Map_keys_def)
  show ?case
  proof (cases "int (length (cache c)) \<ge> maxSize c")
    case True
    with Cons.prems(3) have full: "int (length (cache c)) = maxSize c" by simp
    with Cons.prems(1) have ne: "cache c \<noteq> []" by auto
    from full have nm: "nat (maxSize c) = length (cache c)" by simp
    have k1: "Map_keys (cache ?c') = tl (Map_keys (cache c)) @ [k]"
      using keys' True by simp
    have "length (Map_keys (cache ?c')) = length (tl (Map_keys (cache c)) @ [k])"
      using k1 by simp
    then have l1: "length (cache ?c') = length (cache c)"
      using len lenc ne by (cases "cache c") auto
    have d1: "distinct (Map_keys (cache ?c') @ map fst kvs)"
      using Cons.prems(2) a k1 ne
      by (cases "cache c") (auto simp: Map_keys_def)
    have "Map_keys (cache (cache_set_all ?c' kvs)) =
          drop (length (cache ?c') + length kvs - nat (maxSize ?c')) (Map_keys (cache ?c') @ map fst kvs)"
      using Cons.IH [of ?c'] Cons.prems(1) d1 l1 full by simp
    also have "\<dots> = drop (length (cache c) + length kvs - nat (maxSize c))
                        (tl (Map_keys (cache c)) @ k # map fst kvs)"
      using k1 l1 by simp
    also have "\<dots> = drop (length (cache c) + length (a # kvs) - nat (maxSize c))
                        (Map_keys (cache c) @ map fst (a # kvs))"
      using ne a nm by (cases "cache c") (simp_all add: Map_keys_def)
    finally show ?thesis using a by simp
  next
    case False
    have k1: "Map_keys (cache ?c') = Map_keys (cache c) @ [k]"
      using keys' False by simp
    have "length (Map_keys (cache ?c')) = length (Map_keys (cache c) @ [k])"
      using k1 by simp
    then have l1: "length (cache ?c') = Suc (length (cache c))"
      using len lenc by simp
    have d1: "distinct (Map_keys (cache ?c') @ map fst kvs)"
      using Cons.prems(2) a k1 by auto
    have le: "int (length (cache ?c')) \<le> maxSize ?c'"
      using False l1 by simp
    have "Map_keys (cache (cache_set_all ?c' kvs)) =
          drop (length (cache ?c') + length kvs - nat (maxSize ?c')) (Map_keys (cache ?c') @ map fst kvs)"
      using Cons.IH [of ?c'] Cons.prems(1) d1 le by simp
    then show ?thesis using a k1 l1 by simp
  qed
qed

lemma cache_set_cache:
  "cache (cache_set c now key v) =
     Map_set (if int (length (cache c)) \<ge> maxSize c
              then (case cache c of [] \<Rightarrow> [] | p # ps \<Rightarrow> Map_delete (cache c) (fst p))
              else cache c)
       key \<lparr>item_value = v, item_timestamp = now\<rparr>"
  by (cases "cache c") (simp_all add: cache_set_def Map_keys_def)

text \<open>
  Claim C8. A cache of capacity \<open>N \<ge> 1\<close> that starts empty and receives \<open>N + 1\<close>
  insertions with distinct signatures holds exactly \<open>N\<close> entries afterwards: the
  signatures inserted second to last, in insertion order, without the first one. More
  generally an insertion into any cache with distinct keys removes an entry only when the
  cache is full, and then it removes the head of the insertion order, the oldest entry.
\<close>

theorem SimpleCache_evicts_oldest:
  fixes c :: "'v SimpleCache" and kvs :: "(string \<times> 'v \<times> int) list"
  assumes "1 \<le> N" and "distinct (map fst kvs)" and "length kvs = nat N + 1"
    and "distinct (Map_keys (cache c))"
  shows "length (cache (cache_set_all (new_SimpleCache N t) kvs)) = nat N
       \<and> Map_keys (cache (cache_set_all (new_SimpleCache N t) kvs)) = tl (map fst kvs)
       \<and> fst (hd kvs) \<notin> set (Map_keys (cache (cache_set_all (new_SimpleCache N t) kvs)))
       \<and> cache (cache_set c now key v) =
           Map_set (if int (length (cache c)) \<ge> maxSize c then tl (cache c) else cache c)
             key \<lparr>item_value = v, item_timestamp = now\<rparr>"
proof -
  let ?c0 = "new_SimpleCache N t :: 'v SimpleCache"
  have keys: "Map_keys (cache (cache_set_all ?c0 kvs)) = tl (map fst kvs)"
    using cache_set_all_keys [of ?c0 kvs] assms(1,2,3)
    by (simp add: new_SimpleCache_def Map_keys_def drop_Suc)
  have "length (Map_keys (cache (cache_set_all ?c0 kvs))) = nat N"
    using keys assms(3) by simp
  then have len: "length (cache (cache_set_all ?c0 kvs)) = nat N"
    by (simp add: Map_keys_def)
  have notin: "fst (hd kvs) \<notin> set (tl (map fst kvs))"
    using assms(2,3) by (cases kvs) auto
  have step: "cache (cache_set c now key v) =
           Map_set (if int (length (cache c)) \<ge> maxSize c then tl (cache c) else cache c)
             key \<lparr>item_value = v, item_timestamp = now\<rparr>"
  proof (cases "cache c")
    case Nil
    then show ?thesis by (simp add: cache_set_cache)
  next
    case (Cons p ps)
    with assms(4) have "Map_delete (cache c) (fst p) = ps"
      using Map_delete_head [of p ps] by (simp add: Map_keys_def)
    with Cons show ?thesis by (simp add: cache_set_cache)
  qed
  from keys len notin step show ?thesis by simp
qed

theorem SimpleCache_evicts_oldest_witness:
  "Map_keys (cache (cache_set_all (new_SimpleCache 2 3600000)
      [(''sig1'', True, 10), (''sig2'', False, 20), (''sig3'', True, 30)])) = [''sig2'', ''sig3'']
   \<and> cache (cache_set \<lparr>cache = [(''a'', \<lparr>item_value = True, item_timestamp = 1\<rparr>),
                                   (''b'', \<lparr>item_value = False, item_timestamp = 2\<rparr>)],
                          maxSize = 2, ttl = 5\<rparr> 7 ''c'' True)
       = [(''b'', \<lparr>item_value = False, item_timestamp = 2\<rparr>),
          (''c'', \<lparr>item_value = True, item_timestamp = 7\<rparr>)]"
  using SimpleCache_evicts_oldest [of 2
      "[(''sig1'', True, 10), (''sig2'', False, 20), (''sig3'', True, 30)]"
      "\<lparr>cache = [(''a'', \<lparr>item_value = True, item_timestamp = 1\<rparr>),
                (''b'', \<lparr>item_value = False, item_timestamp = 2\<rparr>)],
        maxSize = 2, ttl = 5\<rparr>" 3600000 7 "''c''" True]
  by (simp add: Map_keys_def)

section \<open>Properties of the balance extractors\<close>

lemma sol_forEach_char:
  "sol_forEach mk (Some ps) posts i acc =
     Inr (acc @ map (\<lambda>(j, post). mk j (if j < length ps then Some (ps ! j) else None) post)
                 (filter (\<lambda>(j, post). (if j < length ps then Some (ps ! j) else None) \<noteq> Some post)
                    (zip [i ..< i + length posts] posts)))"
proof (induction posts arbitrary: i acc)
  case Nil
  then show ?case by simp
next
  case (Cons p posts)
  have upt: "[i ..< i + length (p # posts)] = i # [Suc i ..< Suc i + length posts]"
    using upt_conv_Cons [of i "i + length (p # posts)"] by simp
  show ?case
    unfolding upt by (simp add: Cons.IH Let_def)
qed

lemma zip_upt_nth: "zip [0 ..< length xs] xs = map (\<lambda>i. (i, xs ! i)) [0 ..< length xs]"
  by (rule nth_equalityI) simp_all

lemma sc_change_sol_entry:
  "sc_change (sol_entry ks la n e i (Some p) q) = Num (of_int (q - p) / 1000000000)"
  by (simp add: sol_entry_def Let_def split: prod.splits)

text \<open>
  Claim C5, as the code has it. \<open>parseSOLBalanceChanges\<close> has no dust threshold: on a
  transaction with aligned balance arrays it emits one entry for every account position
  whose post and pre lamports differ at all, in position order, with the change
  \<open>(post - pre) / 1e9\<close>. (The 0.0001 SOL threshold is applied later, by the analysis.)
\<close>

theorem parseSOLBalanceChanges_any_difference:
  assumes "tx_transaction tx = Some d" and "message d = Some msg" and "meta tx = Some mt"
    and "postBalances mt = Some posts" and "preBalances mt = Some pres"
    and "length pres = length posts"
  shows "\<exists>entries. parseSOLBalanceChanges tx = Inr entries \<and>
           map sc_change entries =
             map (\<lambda>i. Num (of_int (posts ! i - pres ! i) / 1000000000))
               (filter (\<lambda>i. pres ! i \<noteq> posts ! i) [0 ..< length posts])"
proof -
  let ?pre = "\<lambda>j. if j < length pres then Some (pres ! j) else None"
  obtain mk where run: "parseSOLBalanceChanges tx = sol_forEach mk (Some pres) posts 0 []"
    and mk: "\<And>i p q. sc_change (mk i (Some p) q) = Num (of_int (q - p) / 1000000000)"
    using assms(1-5) by (simp add: parseSOLBalanceChanges_def Let_def sc_change_sol_entry)
  let ?idx = "filter (\<lambda>i. ?pre i \<noteq> Some (posts ! i)) [0 ..< length posts]"
  have ent: "parseSOLBalanceChanges tx = Inr (map (\<lambda>i. mk i (?pre i) (posts ! i)) ?idx)"
    unfolding run sol_forEach_char
    by (simp add: zip_upt_nth filter_map comp_def)
  have idx: "?idx = filter (\<lambda>i. pres ! i \<noteq> posts ! i) [0 ..< length posts]"
    using assms(6) by (intro filter_cong) auto
  have "map sc_change (map (\<lambda>i. mk i (?pre i) (posts ! i)) ?idx) =
        map (\<lambda>i. Num (of_int (posts ! i - pres ! i) / 1000000000)) ?idx"
    using assms(6) by (auto simp: mk)
  with ent idx show ?thesis by simp
qed

theorem parseSOLBalanceChanges_any_difference_witness:
  "\<exists>entries. parseSOLBalanceChanges dust_tx = Inr entries \<and>
     map sc_change entries = [Num (1 / 1000000000)]"
  using parseSOLBalanceChanges_any_difference [of dust_tx
     "\<lparr>message = Some \<lparr>accountKeys = Some [KeyString ''Wallet''], instructions = Some [],
          numRequiredSignatures = Some 1\<rparr>\<rparr>"
     "\<lparr>accountKeys = Some [KeyString ''Wallet''], instructions = Some [],
          numRequiredSignatures = Some 1\<rparr>"
     "\<lparr>preBalances = Some [1000000000], postBalances = Some [1000000001],
         preTokenBalances = Some [], postTokenBalances = Some [],
         innerInstructions = None, logMessages = Some [], loadedAddresses = None\<rparr>"
     "[1000000001]" "[1000000000]"]
  by (simp add: dust_tx_def mk_tx_def)

text \<open>
  Claim C5 as stated fails: a difference of one lamport, far below 100,000, produces an
  entry.
\<close>

theorem parseSOLBalanceChanges_dust_counterexample:
  "parseSOLBalanceChanges dust_tx =
     Inr [\<lparr>account = ''Wallet'', preBalance = Num 1, postBalance = Num (1000000001 / 1000000000),
           sc_change = Num (1 / 1000000000), isSigner = True, isWritable = False\<rparr>]"
  by (simp add: dust_tx_def mk_tx_def parseSOLBalanceChanges_def sol_entry_def Let_def)

section \<open>Properties of the price computation\<close>





text \<open>
  Outside that range the quotient does leave the doubles: on a direct call with a sold
  amount of \<open>1e-200\<close> and a bought amount of \<open>1e200\<close> the price is an infinity.
\<close>

lemma calculatePrice_direct_call_overflow:
  "calculatePrice
     \<lparr>ci_type = TokenItem, ci_mint = ''MintM'', ci_amount = Num (- (1 / 10 ^ 200)), ci_decimals = 6\<rparr>
     \<lparr>ci_type = TokenItem, ci_mint = ''MintN'', ci_amount = Num (10 ^ 200), ci_decimals = 6\<rparr>
   = PosInf"
  by (simp add: calculatePrice_def DOUBLE_OVERFLOW_def)


text \<open>
  The pair of \<open>two_owner_tx\<close> is one that the generic parser does hand to the price
  computation.
\<close>

lemma two_owner_steps:
  "\<not> is_liquidity_transaction two_owner_tx"
  "parseTokenBalanceChanges (meta two_owner_tx) = Inr two_owner_changes"
  "parseSOLBalanceChanges two_owner_tx = Inr []"
  "getHolderAddress two_owner_tx [] = None"
  "token_swap ''unknown'' None (swap_effective (filter significant_token two_owner_changes) []) = None"
  "analyzeSOLTokenTrade two_owner_changes [] = Inr None"
  by code_simp+

lemma two_owner_pair:
  "generic_pair ''unknown'' None two_owner_changes [] = Some two_owner_outcome"
  by (simp add: generic_pair_def allChanges_def two_owner_changes_def two_owner_outcome_def
      mk_trade_def item_token_def inferTradeType_def SOL_MINT_def price_field_def
      calculatePrice_def DOUBLE_OVERFLOW_def DOUBLE_UNDERFLOW_def)

lemma two_owner_reaches:
  "parseGenericTransaction two_owner_tx ''unknown'' = Inr (Some two_owner_outcome)"
  by (simp add: parseGenericTransaction_def two_owner_steps two_owner_pair)



section \<open>Properties of the parsers\<close>

lemma liquidityOperations_lower:
  "kw \<in> set liquidityOperations \<Longrightarrow> toLowerCase kw = kw"
  unfolding liquidityOperations_def toLowerCase_def lower_char_def
  by auto

lemma includes_lower:
  assumes "kw \<in> set liquidityOperations" and "str_includes s kw"
  shows "str_includes (toLowerCase s) (toLowerCase kw)"
  using assms(2) map_mono_sublist [of kw s lower_char]
  by (simp add: str_includes_def toLowerCase_def)

lemma mentions_liquidity_lowerI:
  assumes "kw \<in> set liquidityOperations" and "str_includes s kw"
  shows "mentions_liquidity (toLowerCase s)"
  using assms(1) includes_lower [OF assms]
  unfolding mentions_liquidity_def list_ex_iff by blast

lemma mentions_liquidityI:
  assumes "kw \<in> set liquidityOperations" and "str_includes s kw"
  shows "mentions_liquidity s"
proof -
  have "str_includes s (toLowerCase kw)"
    using assms(2) liquidityOperations_lower [OF assms(1)] by simp
  with assms(1) show ?thesis
    unfolding mentions_liquidity_def list_ex_iff by blast
qed

text \<open>
  Claim C10. When the lower-cased log text of a transaction contains one of the
  liquidity keywords, or the type of a parsed top-level or inner instruction contains one,
  \<open>parseGenericTransaction\<close> returns \<open>null\<close>, whatever the balance changes are.
\<close>

theorem parseGenericTransaction_liquidity_null:
  assumes "kw \<in> set liquidityOperations"
    and "str_includes (tx_logText tx) kw
       \<or> (\<exists>ix \<in> set (tx_instructions tx). \<exists>ty.
             parsed ix = Some (ParsedObject (Some ty)) \<and> str_includes ty kw)
       \<or> (\<exists>inner \<in> set (tx_innerInstructions tx). \<exists>ixs.
             inner_instructions inner = Some ixs \<and>
             (\<exists>ix \<in> set ixs. \<exists>ty. parsed ix = Some (ParsedObject (Some ty)) \<and> str_includes ty kw))"
  shows "parseGenericTransaction tx dexName = Inr None"
proof -
  have ix: "is_liquidity_instruction ix"
    if "parsed ix = Some (ParsedObject (Some ty))" and "str_includes ty kw" for ix ty
    using that mentions_liquidity_lowerI [OF assms(1), of ty]
    by (simp add: is_liquidity_instruction_def)
  from assms(2) have "is_liquidity_transaction tx"
  proof (elim disjE)
    assume "str_includes (tx_logText tx) kw"
    then show ?thesis
      using mentions_liquidityI [OF assms(1)] by (simp add: is_liquidity_transaction_def)
  next
    assume "\<exists>ix \<in> set (tx_instructions tx). \<exists>ty.
              parsed ix = Some (ParsedObject (Some ty)) \<and> str_includes ty kw"
    then have "list_ex is_liquidity_instruction (tx_instructions tx)"
      using ix by (auto simp: list_ex_iff)
    then show ?thesis by (simp add: is_liquidity_transaction_def)
  next
    assume "\<exists>inner \<in> set (tx_innerInstructions tx). \<exists>ixs.
             inner_instructions inner = Some ixs \<and>
             (\<exists>ix \<in> set ixs. \<exists>ty. parsed ix = Some (ParsedObject (Some ty)) \<and> str_includes ty kw)"
    then obtain inner ixs where a: "inner \<in> set (tx_innerInstructions tx)"
      and b: "inner_instructions inner = Some ixs"
      and c: "\<exists>ix \<in> set ixs. \<exists>ty. parsed ix = Some (ParsedObject (Some ty)) \<and> str_includes ty kw"
      by blast
    from c have "list_ex is_liquidity_instruction ixs"
      using ix by (auto simp: list_ex_iff)
    with a b have "list_ex (\<lambda>inner. case inner_instructions inner of None \<Rightarrow> False
                             | Some ixs \<Rightarrow> list_ex is_liquidity_instruction ixs)
              (tx_innerInstructions tx)"
      by (auto simp: list_ex_iff intro!: bexI [of _ inner])
    then show ?thesis by (simp add: is_liquidity_transaction_def)
  qed
  then show ?thesis by (simp add: parseGenericTransaction_def)
qed

lemma deposit_log_included:
  "str_includes (tx_logText (pump_buy_tx [''Program log: Instruction: Deposit''])) ''deposit''"
  by code_simp

text \<open>
  The balance changes of the example alone form a valid pair: without the log line the
  generic parser reports the purchase.
\<close>

lemma pump_buy_generic:
  "parseGenericTransaction (pump_buy_tx []) ''unknown'' =
     Inr (Some ((mk_trade Buy \<lparr>mint = SOL_MINT, symbol = ''SOL'', amount = Num 1.5, decimals = 9\<rparr>
        \<lparr>mint = ''MintM'', symbol = ''Token'', amount = Num 1000000, decimals = 6\<rparr>
        (Some (Num (3 / 2000000))) (Some ''Wallet''))
        \<lparr>dex := Some ''unknown'', source := Some ''generic_parser''\<rparr>))"
  by code_simp

theorem parseGenericTransaction_liquidity_null_witness:
  "parseGenericTransaction (pump_buy_tx [''Program log: Instruction: Deposit'']) ''unknown'' = Inr None"
proof -
  have kw: "''deposit'' \<in> set liquidityOperations"
    by (simp add: liquidityOperations_def)
  show ?thesis
    using parseGenericTransaction_liquidity_null [OF kw, of
        "pump_buy_tx [''Program log: Instruction: Deposit'']" "''unknown''"]
      deposit_log_included
    by simp
qed

text \<open>
  Claim C3. Let the balance analysis of a Pump.fun transaction infer an outcome \<open>t\<close>.
  Then \<open>parsePumpFunTransaction\<close> returns an outcome \<open>r\<close>, and when the log states a
  sell while \<open>t\<close> is a buy, \<open>r\<close> is a sell whose sold and bought tokens are those of
  \<open>t\<close> exchanged and whose price is the bought amount divided by the sold amount; the
  same holds for a log that states a buy while \<open>t\<close> is a sell.
\<close>

theorem parsePumpFunTransaction_log_direction:
  assumes "analyze_transaction tx = Inr (Some t)"
    and "message_instructions tx = Inr ixs"
    and "pump_main_count ixs (tx_accountKeys tx) > 0
       \<or> pump_inner_count tx (tx_accountKeys tx) > 0
       \<or> str_includes (tx_logText tx) (toLowerCase PUMP_FUN_PROGRAM_ID)"
  shows "\<exists>r. parsePumpFunTransaction tx = Inr (Some r) \<and>
     (isSellFromLog (tx_logText tx) \<and> ttype t = Buy \<longrightarrow>
        ttype r = Sell \<and> soldToken r = boughtToken t \<and> boughtToken r = soldToken t \<and>
        price r = Some (js_div (amount (boughtToken r)) (amount (soldToken r)))) \<and>
     (isBuyFromLog (tx_logText tx) \<and> ttype t = Sell \<longrightarrow>
        ttype r = Buy \<and> soldToken r = boughtToken t \<and> boughtToken r = soldToken t \<and>
        price r = Some (js_div (amount (boughtToken r)) (amount (soldToken r))))"
proof -
  from assms(2) obtain d msg where d: "tx_transaction tx = Some d" and msg: "message d = Some msg"
    and ixs: "instructions msg = Some ixs"
    by (auto simp: message_instructions_def split: option.splits)
  have keys: "tx_accountKeys tx = accountKeys msg"
    using d msg by (simp add: tx_accountKeys_def)
  have guard: "\<not> (pump_main_count ixs (accountKeys msg) = 0 \<and>
                  pump_inner_count tx (accountKeys msg) = 0 \<and>
                  \<not> str_includes (tx_logText tx) (toLowerCase PUMP_FUN_PROGRAM_ID))"
    using assms(3) keys by auto
  let ?r = "(apply_log_direction (tx_logText tx) t)
              \<lparr>dex := Some ''pump_fun_amm'', source := Some ''pump_fun_parser'',
               platform := Some ''pump.fun'',
               pumpInstructions := Some (pump_main_count ixs (accountKeys msg) +
                                         pump_inner_count tx (accountKeys msg)),
               routed := Some (pump_inner_count tx (accountKeys msg) > 0)\<rparr>"
  have res: "parsePumpFunTransaction tx = Inr (Some ?r)"
    using d msg ixs guard assms(1)
    by (simp add: parsePumpFunTransaction_def Let_def)
  show ?thesis
    unfolding res
    by (auto simp: apply_log_direction_def flip_trade_def)
qed

lemma pump_buy_analysis:
  "analyze_transaction (pump_buy_tx [pump_log, ''Program log: Instruction: Sell'']) =
     Inr (Some (mk_trade Buy \<lparr>mint = SOL_MINT, symbol = ''SOL'', amount = Num 1.5, decimals = 9\<rparr>
        \<lparr>mint = ''MintM'', symbol = ''Token'', amount = Num 1000000, decimals = 6\<rparr>
        (Some (Num (3 / 2000000))) (Some ''Wallet'')))"
  by code_simp

lemma pump_buy_instructions:
  "message_instructions (pump_buy_tx [pump_log, ''Program log: Instruction: Sell'']) = Inr []"
  by code_simp

lemma pump_buy_in_log:
  "str_includes (tx_logText (pump_buy_tx [pump_log, ''Program log: Instruction: Sell'']))
     (toLowerCase PUMP_FUN_PROGRAM_ID)"
  by code_simp

lemma pump_buy_sell_log:
  "isSellFromLog (tx_logText (pump_buy_tx [pump_log, ''Program log: Instruction: Sell'']))"
  by code_simp

theorem parsePumpFunTransaction_log_direction_witness:
  "\<exists>r. parsePumpFunTransaction (pump_buy_tx [pump_log, ''Program log: Instruction: Sell'']) = Inr (Some r)
     \<and> ttype r = Sell \<and> mint (soldToken r) = ''MintM'' \<and> amount (soldToken r) = Num 1000000
     \<and> mint (boughtToken r) = SOL_MINT \<and> amount (boughtToken r) = Num 1.5
     \<and> price r = Some (Num (3 / 2000000))"
  using parsePumpFunTransaction_log_direction
      [OF pump_buy_analysis pump_buy_instructions disjI2 [OF disjI2 [OF pump_buy_in_log]]]
    pump_buy_sell_log
  by (auto simp: mk_trade_def)

section \<open>Properties of cached outcomes\<close>

text \<open>
  Claim C9, as the code has it. A cache hit hands out the stored reference itself, not a
  copy: while the entry has not expired, \<open>parseTrade\<close> returns the reference that the
  entry holds and leaves the cache as it is, and after the caller has changed the object
  through that reference, a later read of the same signature returns the same reference
  and observes the changed object.
\<close>

theorem cache_hit_shares_object:
  assumes "Map_get (cache (ref_cache w)) sig = Some item"
    and "now - item_timestamp item \<le> ttl (ref_cache w)"
    and "later - item_timestamp item \<le> ttl (ref_cache w)"
  shows "parseTrade_cached w now sig = (Some (item_value item), w)
       \<and> parseTrade_cached (mutate w (item_value item) f) later sig =
           (Some (item_value item), mutate w (item_value item) f)
       \<and> deref (mutate w (item_value item) f) (Some (item_value item)) =
           map_option f (heap w (item_value item))"
  using assms
  by (simp add: parseTrade_cached_def cache_get_def mutate_def deref_def)

theorem cache_hit_shares_object_witness:
  "parseTrade_cached sample_world 2000 ''sig1'' = (Some 7, sample_world)
   \<and> deref (mutate sample_world 7 (\<lambda>t. t\<lparr>ttype := Sell\<rparr>))
       (fst (parseTrade_cached (mutate sample_world 7 (\<lambda>t. t\<lparr>ttype := Sell\<rparr>)) 3000 ''sig1''))
     = Some (sample_trade\<lparr>ttype := Sell\<rparr>)"
  using cache_hit_shares_object [of sample_world "''sig1''"
      "\<lparr>item_value = 7, item_timestamp = 1000\<rparr>" 2000 3000 "\<lambda>t. t\<lparr>ttype := Sell\<rparr>"]
  by (simp add: sample_world_def Map_get_def deref_def)

text \<open>
  Claim C9 as stated fails: after a cache hit returned reference 7 and the caller changed
  the trade type of that object, the next cache read of the same signature observes the
  changed object, not the one that was stored.
\<close>

theorem cache_hit_copy_counterexample:
  "fst (parseTrade_cached sample_world 2000 ''sig1'') = Some 7
   \<and> deref (mutate sample_world 7 (\<lambda>t. t\<lparr>ttype := Sell\<rparr>))
       (fst (parseTrade_cached (mutate sample_world 7 (\<lambda>t. t\<lparr>ttype := Sell\<rparr>)) 3000 ''sig1''))
     \<noteq> deref sample_world (fst (parseTrade_cached sample_world 2000 ''sig1''))"
  by (simp add: parseTrade_cached_def cache_get_def mutate_def deref_def sample_world_def
      Map_get_def sample_trade_def mk_trade_def)

section \<open>Properties of analyzeSOLTokenTrade\<close>

lemma filter_none: "(\<And>x. x \<in> set xs \<Longrightarrow> \<not> P x) \<Longrightarrow> filter P xs = []"
  by (induction xs) auto

lemma tokenChangeMap_single:
  "tokenChangeMap [t] =
     [(tc_mint t, \<lparr>tt_mint = tc_mint t, tt_decimals = tc_decimals t,
                   totalChange = js_add (Num 0) (tc_change t)\<rparr>)]"
  by (simp add: tokenChangeMap_def total_add_def Map_has_def Map_get_def Let_def)

text \<open>
  Claim C1, as the code has it. Let the acting wallet \<open>W\<close> have exactly one native
  change, \<open>-X\<close> with \<open>X > 0.0001\<close>, and exactly one token change, \<open>+Y\<close> with
  \<open>Y > 0.000001\<close>, of a mint that is neither the native mint nor \<open>'SOL'\<close>. Let no other
  account have a native decrease above the threshold, and let no other significant token
  change count as a user change: none is owned by a signer with a significant native
  change, no increase is owned by \<open>W\<close>, no decrease is owned by an account whose native
  balance grew. Then the analysis returns a buy of \<open>Y\<close> tokens for \<open>X\<close> of the native
  asset at price \<open>X / Y\<close>, held by \<open>W\<close>.
\<close>

theorem analyzeSOLTokenTrade_buy:
  assumes sol: "solChanges = solsA @ s # solsB"
    and s: "account s = W" "sc_change s = Num (- X)" "X > 0.0001"
    and others_sol: "\<And>c. c \<in> set (solsA @ solsB) \<Longrightarrow> \<not> (significant_sol c \<and> sol_spent c)"
    and tok: "tokenChanges = toksA @ t # toksB"
    and t: "tc_owner t = W" "tc_change t = Num Y" "Y > 0.000001"
           "tc_mint t \<noteq> SOL_MINT" "tc_mint t \<noteq> ''SOL''"
    and W: "W \<noteq> []"
    and others_tok: "\<And>c. c \<in> set (toksA @ toksB) \<Longrightarrow> significant_token c \<Longrightarrow>
        tc_owner c \<notin> set (map account (filter isSigner (filter significant_sol solChanges))) \<and>
        (js_gt (tc_change c) (Num 0) \<longrightarrow> tc_owner c \<noteq> W) \<and>
        (js_lt (tc_change c) (Num 0) \<longrightarrow>
           tc_owner c \<notin> set (map account (filter sol_received (filter significant_sol solChanges))))"
  shows "analyzeSOLTokenTrade tokenChanges solChanges =
     Inr (Some (mk_trade Buy
        \<lparr>mint = SOL_MINT, symbol = ''SOL'', amount = Num X, decimals = 9\<rparr>
        \<lparr>mint = tc_mint t, symbol = ''Token'', amount = Num Y, decimals = tc_decimals t\<rparr>
        (Some (Num (X / Y))) (Some W)))"
proof -
  let ?sigSol = "filter significant_sol solChanges"
  let ?sigTok = "filter significant_token tokenChanges"
  have s_sig: "significant_sol s" "sol_spent s" "\<not> sol_received s"
    using s by (simp_all add: significant_sol_def sol_spent_def sol_received_def)
  have t_sig: "significant_token t"
    using t by (simp add: significant_token_def)
  have spent: "filter sol_spent ?sigSol = [s]"
  proof -
    have "filter sol_spent (filter significant_sol solsA) = []"
         "filter sol_spent (filter significant_sol solsB) = []"
      using others_sol by (auto intro!: filter_none)
    then show ?thesis using s_sig by (simp add: sol)
  qed
  let ?user = "\<lambda>c. (js_gt (tc_change c) (Num 0) \<and>
              (tc_owner c \<in> set (map account (filter sol_spent ?sigSol)) \<or>
               tc_owner c \<in> set (map account (filter isSigner ?sigSol)))) \<or>
           (js_lt (tc_change c) (Num 0) \<and>
              (tc_owner c \<in> set (map account (filter sol_received ?sigSol)) \<or>
               tc_owner c \<in> set (map account (filter isSigner ?sigSol))))"
  have spentAcc: "set (map account (filter sol_spent ?sigSol)) = {W}"
    unfolding spent using s(1) by simp
  have user_t: "?user t"
    unfolding spentAcc using t by simp
  have user_other: "\<not> ?user c" if "c \<in> set (toksA @ toksB)" "significant_token c" for c
  proof -
    from others_tok [OF that]
    have a': "tc_owner c \<notin> set (map account (filter isSigner ?sigSol))"
      and b: "js_gt (tc_change c) (Num 0) \<longrightarrow> tc_owner c \<noteq> W"
      and c': "js_lt (tc_change c) (Num 0) \<longrightarrow>
                tc_owner c \<notin> set (map account (filter sol_received ?sigSol))"
      by blast+
    show ?thesis unfolding spentAcc using a' b c' by blast
  qed
  have user: "userTokenChanges ?sigSol ?sigTok = [t]"
  proof -
    have "filter ?user (filter significant_token toksA) = []"
         "filter ?user (filter significant_token toksB) = []"
      using user_other by (auto intro!: filter_none)
    then show ?thesis
      using user_t t_sig unfolding userTokenChanges_def Let_def tok by simp
  qed
  have eff: "effectiveTokenChanges ?sigSol ?sigTok = [t]"
    unfolding effectiveTokenChanges_def Let_def user by simp
  have total: "totalSolSpent [s] = Num X"
    using s by (simp add: totalSolSpent_def)
  have xy: "X > 0" "Y > 0" "Y \<noteq> 0"
    using s(3) t(3) by auto
  have holder: "holder_from_tokens solChanges [t] = Some W"
    using t(1) W by (simp add: holder_from_tokens_def js_or_def split: option.splits)
  show ?thesis
    unfolding analyzeSOLTokenTrade_def Let_def eff spent tokenChangeMap_single
    using total xy t holder W
    by (simp add: Map_values_def pick_tokenBought_def holder_from_signer_def)
qed

lemma pool_buy_example:
  "analyzeSOLTokenTrade pool_buy_tokens pool_buy_sols =
     Inr (Some (mk_trade Buy
        \<lparr>mint = SOL_MINT, symbol = ''SOL'', amount = Num 1.5, decimals = 9\<rparr>
        \<lparr>mint = ''MintM'', symbol = ''Token'', amount = Num 1000000, decimals = 6\<rparr>
        (Some (Num (1.5 / 1000000))) (Some ''Wallet'')))"
  by code_simp

theorem analyzeSOLTokenTrade_buy_witness:
  "analyzeSOLTokenTrade pool_buy_tokens pool_buy_sols =
     Inr (Some (mk_trade Buy
        \<lparr>mint = SOL_MINT, symbol = ''SOL'', amount = Num 1.5, decimals = 9\<rparr>
        \<lparr>mint = ''MintM'', symbol = ''Token'', amount = Num 1000000, decimals = 6\<rparr>
        (Some (Num (1.5 / 1000000))) (Some ''Wallet'')))"
proof -
  let ?s = "\<lparr>account = ''Wallet'', preBalance = Num 2, postBalance = Num 0.5,
        sc_change = Num (- 1.5), isSigner = True, isWritable = True\<rparr>"
  let ?pool = "\<lparr>account = ''PoolSolAccount'', preBalance = Num 10, postBalance = Num 11.5,
        sc_change = Num 1.5, isSigner = False, isWritable = True\<rparr>"
  let ?t = "\<lparr>tc_mint = ''MintM'', tc_owner = ''Wallet'', preAmount = Num 0,
        postAmount = Num 1000000, tc_change = Num 1000000, tc_decimals = 6\<rparr>"
  let ?auth = "\<lparr>tc_mint = ''MintM'', tc_owner = ''PoolAuthority'', preAmount = Num 5000000,
        postAmount = Num 4000000, tc_change = Num (- 1000000), tc_decimals = 6\<rparr>"
  have "analyzeSOLTokenTrade pool_buy_tokens pool_buy_sols =
     Inr (Some (mk_trade Buy
        \<lparr>mint = SOL_MINT, symbol = ''SOL'', amount = Num 1.5, decimals = 9\<rparr>
        \<lparr>mint = tc_mint ?t, symbol = ''Token'', amount = Num 1000000, decimals = tc_decimals ?t\<rparr>
        (Some (Num (1.5 / 1000000))) (Some ''Wallet'')))"
    by (rule analyzeSOLTokenTrade_buy [where solsA = "[]" and s = ?s and solsB = "[?pool]"
          and toksA = "[?auth]" and t = ?t and toksB = "[]"])
       (simp_all add: pool_buy_sols_def pool_buy_tokens_def significant_sol_def sol_spent_def
          sol_received_def SOL_MINT_def)
  then show ?thesis by simp
qed

text \<open>
  Claim C1 as stated fails below the dust threshold: a wallet whose only changes are
  \<open>-0.00005\<close> native and \<open>+1000\<close> token gets no outcome at all, neither from the
  analysis nor from the generic parser.
\<close>

theorem analyzeSOLTokenTrade_small_counterexample:
  "analyzeSOLTokenTrade
     [\<lparr>tc_mint = ''MintM'', tc_owner = ''Wallet'', preAmount = Num 0,
       postAmount = Num 1000, tc_change = Num 1000, tc_decimals = 6\<rparr>]
     [\<lparr>account = ''Wallet'', preBalance = Num 1, postBalance = Num 0.99995,
       sc_change = Num (- 0.00005), isSigner = True, isWritable = False\<rparr>] = Inr None
   \<and> parseGenericTransaction small_buy_tx ''unknown'' = Inr None"
  by code_simp

section \<open>Absent balance arrays\<close>








lemma those_map_Some [simp]: "those (map Some xs) = Some xs"
  by (induction xs) simp_all








section \<open>The representative pair of the generic parser\<close>

lemma js_le_trans: "js_le a b \<Longrightarrow> js_le b c \<Longrightarrow> js_le a c"
  by (cases a; cases b; cases c) auto

lemma js_gt_le: "js_gt a b \<Longrightarrow> js_le b a"
  by (cases a; cases b) auto

lemma js_not_gt_le: "a \<noteq> NaN \<Longrightarrow> b \<noteq> NaN \<Longrightarrow> \<not> js_gt a b \<Longrightarrow> js_le a b"
  by (cases a; cases b) auto

lemma js_abs_NaN [simp]: "(js_abs x = NaN) = (x = NaN)"
  by (cases x) auto

lemma js_le_refl: "a \<noteq> NaN \<Longrightarrow> js_le a a"
  by (cases a) auto

lemma max_abs_item_fold:
  assumes "\<And>i. i \<in> set (a # xs) \<Longrightarrow> ci_amount i \<noteq> NaN"
  shows "max_abs_item a xs \<in> set (a # xs) \<and>
         (\<forall>i \<in> set (a # xs). js_le (js_abs (ci_amount i)) (js_abs (ci_amount (max_abs_item a xs))))"
  using assms
proof (induction xs arbitrary: a)
  case Nil
  then show ?case by (simp add: max_abs_item_def js_le_refl)
next
  case (Cons x xs)
  let ?b = "if js_gt (js_abs (ci_amount x)) (js_abs (ci_amount a)) then x else a"
  let ?m = "max_abs_item ?b xs"
  have step: "max_abs_item a (x # xs) = ?m"
    by (simp add: max_abs_item_def)
  have na: "js_abs (ci_amount a) \<noteq> NaN" and nx: "js_abs (ci_amount x) \<noteq> NaN"
    using Cons.prems [of a] Cons.prems [of x] by simp_all
  have num: "\<And>i. i \<in> set (?b # xs) \<Longrightarrow> ci_amount i \<noteq> NaN"
    using Cons.prems by auto
  from Cons.IH [OF num]
  have mem: "?m \<in> set (?b # xs)"
    and mx: "\<forall>i \<in> set (?b # xs). js_le (js_abs (ci_amount i)) (js_abs (ci_amount ?m))"
    by blast+
  have b_le: "js_le (js_abs (ci_amount ?b)) (js_abs (ci_amount ?m))"
    using mx by simp
  have a_le: "js_le (js_abs (ci_amount a)) (js_abs (ci_amount ?m))"
  proof (cases "js_gt (js_abs (ci_amount x)) (js_abs (ci_amount a))")
    case True
    then show ?thesis using b_le js_gt_le js_le_trans by (simp only: if_True) blast
  next
    case False
    then show ?thesis using b_le by simp
  qed
  have x_le: "js_le (js_abs (ci_amount x)) (js_abs (ci_amount ?m))"
  proof (cases "js_gt (js_abs (ci_amount x)) (js_abs (ci_amount a))")
    case True
    then show ?thesis using b_le by simp
  next
    case False
    then have "js_le (js_abs (ci_amount x)) (js_abs (ci_amount a))"
      using js_not_gt_le nx na by blast
    then show ?thesis using a_le js_le_trans by blast
  qed
  have rest: "\<forall>i \<in> set xs. js_le (js_abs (ci_amount i)) (js_abs (ci_amount ?m))"
    using mx by simp
  have mem': "?m \<in> set (a # x # xs)"
    using mem by (auto split: if_splits)
  show ?case
    unfolding step using mem' a_le x_le rest by simp
qed

lemma filter_lt_number:
  "i \<in> set (filter (\<lambda>i. js_lt (ci_amount i) (Num 0)) xs) \<Longrightarrow> ci_amount i \<noteq> NaN"
  by (cases "ci_amount i") auto

lemma filter_gt_number:
  "i \<in> set (filter (\<lambda>i. js_gt (ci_amount i) (Num 0)) xs) \<Longrightarrow> ci_amount i \<noteq> NaN"
  by (cases "ci_amount i") auto

text \<open>
  Claim C7, as the code has it. Let the liquidity test, the token-to-token swap and the
  SOL analysis all find nothing, and let the significant changes contain at least one
  decrease and one increase, but not exactly one of each. Then the representative pair is
  a decrease and an increase of largest magnitude, and when both representatives are
  token changes of mints other than the native mint and \<open>'SOL'\<close>, or both are native
  changes, the result is \<open>null\<close>: the parser keeps the representative pair only when it
  is one of the native asset and a token.
\<close>

theorem parseGenericTransaction_representative_pair:
  assumes "\<not> is_liquidity_transaction tx"
    and "parseTokenBalanceChanges (meta tx) = Inr tokenChanges"
    and "parseSOLBalanceChanges tx = Inr solChanges"
    and "token_swap dexName (getHolderAddress tx solChanges)
           (swap_effective (filter significant_token tokenChanges) solChanges) = None"
    and "analyzeSOLTokenTrade tokenChanges solChanges = Inr None"
    and "filter (\<lambda>i. js_lt (ci_amount i) (Num 0))
           (filter (\<lambda>i. js_gt (js_abs (ci_amount i)) (Num 0.0001))
              (allChanges tokenChanges solChanges)) = s0 # srest"
    and "filter (\<lambda>i. js_gt (ci_amount i) (Num 0))
           (filter (\<lambda>i. js_gt (js_abs (ci_amount i)) (Num 0.0001))
              (allChanges tokenChanges solChanges)) = b0 # brest"
    and "srest \<noteq> [] \<or> brest \<noteq> []"
  shows "max_abs_item s0 srest \<in> set (s0 # srest)
     \<and> (\<forall>i \<in> set (s0 # srest).
          js_le (js_abs (ci_amount i)) (js_abs (ci_amount (max_abs_item s0 srest))))
     \<and> max_abs_item b0 brest \<in> set (b0 # brest)
     \<and> (\<forall>i \<in> set (b0 # brest).
          js_le (js_abs (ci_amount i)) (js_abs (ci_amount (max_abs_item b0 brest))))
     \<and> ((ci_type (max_abs_item s0 srest) = TokenItem \<and> ci_type (max_abs_item b0 brest) = TokenItem
           \<and> ci_mint (max_abs_item s0 srest) \<notin> {''SOL'', SOL_MINT}
           \<and> ci_mint (max_abs_item b0 brest) \<notin> {''SOL'', SOL_MINT})
         \<or> (ci_type (max_abs_item s0 srest) = SolItem \<and> ci_type (max_abs_item b0 brest) = SolItem)
        \<longrightarrow> parseGenericTransaction tx dexName = Inr None)"
proof -
  let ?ms = "max_abs_item s0 srest" and ?mb = "max_abs_item b0 brest"
  have snum: "\<And>i. i \<in> set (s0 # srest) \<Longrightarrow> ci_amount i \<noteq> NaN"
    using filter_lt_number assms(6) by metis
  have bnum: "\<And>i. i \<in> set (b0 # brest) \<Longrightarrow> ci_amount i \<noteq> NaN"
    using filter_gt_number assms(7) by metis
  have smax: "?ms \<in> set (s0 # srest) \<and>
      (\<forall>i \<in> set (s0 # srest). js_le (js_abs (ci_amount i)) (js_abs (ci_amount ?ms)))"
    using max_abs_item_fold [of s0 srest] snum by blast
  have bmax: "?mb \<in> set (b0 # brest) \<and>
      (\<forall>i \<in> set (b0 # brest). js_le (js_abs (ci_amount i)) (js_abs (ci_amount ?mb)))"
    using max_abs_item_fold [of b0 brest] bnum by blast
  have pair: "generic_pair dexName (getHolderAddress tx solChanges) tokenChanges solChanges =
      (if isSOLTokenTrade ?ms ?mb
       then Some ((mk_trade (inferTradeType (ci_mint ?ms) (ci_mint ?mb))
                    (item_token ?ms True) (item_token ?mb False) (price_field ?ms ?mb)
                    (getHolderAddress tx solChanges))
                  \<lparr>dex := Some dexName, source := Some ''generic_parser'',
                   trade_note := Some MainPairExtracted\<rparr>)
       else None)"
    using assms(8)
    unfolding generic_pair_def Let_def assms(6) assms(7)
    by (cases srest; cases brest) simp_all
  have whole: "parseGenericTransaction tx dexName =
      Inr (generic_pair dexName (getHolderAddress tx solChanges) tokenChanges solChanges)"
    using assms(1-5) by (simp add: parseGenericTransaction_def Let_def)
  have no: "(ci_type ?ms = TokenItem \<and> ci_type ?mb = TokenItem
           \<and> ci_mint ?ms \<notin> {''SOL'', SOL_MINT} \<and> ci_mint ?mb \<notin> {''SOL'', SOL_MINT})
         \<or> (ci_type ?ms = SolItem \<and> ci_type ?mb = SolItem)
        \<Longrightarrow> parseGenericTransaction tx dexName = Inr None"
    unfolding whole pair by (auto simp: isSOLTokenTrade_def)
  from smax bmax no show ?thesis by blast
qed

lemma sol_split_values:
  "\<not> is_liquidity_transaction sol_split_tx"
  "parseTokenBalanceChanges (meta sol_split_tx) = Inr []"
  "parseSOLBalanceChanges sol_split_tx = Inr sol_split_changes"
  "token_swap ''unknown'' (getHolderAddress sol_split_tx sol_split_changes)
     (swap_effective (filter significant_token []) sol_split_changes) = None"
  "analyzeSOLTokenTrade [] sol_split_changes = Inr None"
  "filter (\<lambda>i. js_lt (ci_amount i) (Num 0))
     (filter (\<lambda>i. js_gt (js_abs (ci_amount i)) (Num 0.0001))
        (allChanges [] sol_split_changes)) =
     [\<lparr>ci_type = SolItem, ci_mint = SOL_MINT, ci_amount = Num (- 1), ci_decimals = 9\<rparr>]"
  "filter (\<lambda>i. js_gt (ci_amount i) (Num 0))
     (filter (\<lambda>i. js_gt (js_abs (ci_amount i)) (Num 0.0001))
        (allChanges [] sol_split_changes)) =
     [\<lparr>ci_type = SolItem, ci_mint = SOL_MINT, ci_amount = Num (3 / 5), ci_decimals = 9\<rparr>,
      \<lparr>ci_type = SolItem, ci_mint = SOL_MINT, ci_amount = Num (2 / 5), ci_decimals = 9\<rparr>]"
  by code_simp+

theorem parseGenericTransaction_representative_pair_witness:
  "max_abs_item
     \<lparr>ci_type = SolItem, ci_mint = SOL_MINT, ci_amount = Num (3 / 5), ci_decimals = 9\<rparr>
     [\<lparr>ci_type = SolItem, ci_mint = SOL_MINT, ci_amount = Num (2 / 5), ci_decimals = 9\<rparr>] =
     \<lparr>ci_type = SolItem, ci_mint = SOL_MINT, ci_amount = Num (3 / 5), ci_decimals = 9\<rparr>
   \<and> parseGenericTransaction sol_split_tx ''unknown'' = Inr None"
  using parseGenericTransaction_representative_pair [OF sol_split_values]
  by (simp add: max_abs_item_def)

lemma multi_token_steps:
  "\<not> is_liquidity_transaction multi_token_tx"
  "parseTokenBalanceChanges (meta multi_token_tx) = Inr multi_token_changes"
  "parseSOLBalanceChanges multi_token_tx = Inr []"
  "getHolderAddress multi_token_tx [] = None"
  "token_swap ''unknown'' None
     (swap_effective (filter significant_token multi_token_changes) []) = None"
  "analyzeSOLTokenTrade multi_token_changes [] = Inr None"
  by code_simp+

lemma multi_token_pair:
  "generic_pair ''unknown'' None multi_token_changes [] = None"
  by (simp add: generic_pair_def allChanges_def multi_token_changes_def max_abs_item_def
      isSOLTokenTrade_def)

text \<open>
  Claim C7 as stated fails: the largest decrease (5 of \<open>MintA\<close>) and the largest
  increase (3 of \<open>MintB\<close>) are a token-to-token pair, which the parser does not keep, so
  the result is \<open>null\<close>, not a swap with a note.
\<close>

theorem representative_pair_counterexample:
  "parseGenericTransaction multi_token_tx ''unknown'' = Inr None"
  by (simp add: parseGenericTransaction_def multi_token_steps multi_token_pair)

section \<open>Properties of the batch pipeline\<close>

lemma Map_set_keys: "set (Map_keys (Map_set m k v)) = insert k (set (Map_keys m))"
  unfolding Map_keys_def by (induction m) auto

lemma Map_delete_keys: "set (Map_keys (Map_delete m k)) \<subseteq> set (Map_keys m)"
  by (auto simp: Map_keys_def Map_delete_def)

lemma Map_get_absent: "k \<notin> set (Map_keys m) \<Longrightarrow> Map_get m k = None"
  by (simp add: Map_keys_def Map_get_def map_of_eq_None_iff)

lemma cache_get_keys:
  "set (Map_keys (cache (snd (cache_get c now k)))) \<subseteq> set (Map_keys (cache c))"
  using Map_delete_keys [of "cache c" k]
  by (auto simp: cache_get_def split: option.splits)

lemma cache_get_absent: "k \<notin> set (Map_keys (cache c)) \<Longrightarrow> cache_get c now k = (None, c)"
  by (simp add: cache_get_def Map_get_absent)

lemma cache_set_keys:
  "set (Map_keys (cache (cache_set c now k v))) \<subseteq> insert k (set (Map_keys (cache c)))"
proof -
  have "set (Map_keys (case cache c of [] \<Rightarrow> [] | p # ps \<Rightarrow> Map_delete (cache c) (fst p)))
          \<subseteq> set (Map_keys (cache c))"
    using Map_delete_keys [of "cache c"] by (cases "cache c") auto
  then show ?thesis
    unfolding cache_set_cache Map_set_keys by auto
qed

lemma remember_api [simp]: "api_calls (remember uc sig t w) = api_calls w"
  by (simp add: remember_def)

lemma remember_keys:
  "set (Map_keys (cache (parser_cache (remember uc sig t w))))
     \<subseteq> insert sig (set (Map_keys (cache (parser_cache w))))"
  using cache_set_keys [of "parser_cache w" "clock w" sig t]
  by (auto simp: remember_def)

lemma transaction_path_fst:
  "fst (transaction_path uc sig tx w) = fst (transaction_path uc' sig tx w')"
  by (simp add: transaction_path_def split: sum.splits option.splits)

lemma transaction_path_api: "api_calls (snd (transaction_path uc sig tx w)) = api_calls w"
  by (simp add: transaction_path_def split: sum.splits option.splits)

lemma transaction_path_keys:
  "set (Map_keys (cache (parser_cache (snd (transaction_path uc sig tx w)))))
     \<subseteq> insert sig (set (Map_keys (cache (parser_cache w))))"
  using remember_keys [of uc sig _ w]
  by (auto simp: transaction_path_def split: sum.splits option.splits)

lemma transaction_path_None:
  "fst (transaction_path uc sig tx w) = None \<Longrightarrow> snd (transaction_path uc sig tx w) = w"
  by (simp add: transaction_path_def split: sum.splits option.splits)

lemma parseTrade_uncached:
  "parseTrade r w sig False False =
     (case fetched r sig of
        None \<Rightarrow> (None, w\<lparr>fetch_calls := fetch_calls w @ [sig]\<rparr>)
      | Some tx \<Rightarrow> transaction_path False sig tx (w\<lparr>fetch_calls := fetch_calls w @ [sig]\<rparr>))"
  by (simp add: parseTrade_def fetched_def Let_def split: option.splits)

lemma parseTrade_cached_miss:
  assumes "cache_get (parser_cache w) (clock w) sig = (None, c')"
  shows "parseTrade r w sig False True =
     (case fetched r sig of
        None \<Rightarrow> (None, w\<lparr>parser_cache := c', fetch_calls := fetch_calls w @ [sig]\<rparr>)
      | Some tx \<Rightarrow>
          transaction_path True sig tx (w\<lparr>parser_cache := c', fetch_calls := fetch_calls w @ [sig]\<rparr>))"
  using assms by (simp add: parseTrade_def fetched_def Let_def split: option.splits)

lemma parseTrade_cached_hit:
  assumes "cache_get (parser_cache w) (clock w) sig = (Some t, c')"
  shows "parseTrade r w sig False True = (Some t, w\<lparr>parser_cache := c'\<rparr>)"
  using assms by (simp add: parseTrade_def Let_def)

lemma parseTrade_no_api: "api_calls (snd (parseTrade r w sig False True)) = api_calls w"
proof (cases "cache_get (parser_cache w) (clock w) sig")
  case (Pair v c')
  show ?thesis
  proof (cases v)
    case None
    with Pair show ?thesis
      by (simp add: parseTrade_cached_miss transaction_path_api split: option.splits)
  next
    case (Some t)
    with Pair show ?thesis by (simp add: parseTrade_cached_hit)
  qed
qed

lemma parseTrade_keys:
  "set (Map_keys (cache (parser_cache (snd (parseTrade r w sig False True)))))
     \<subseteq> insert sig (set (Map_keys (cache (parser_cache w))))"
proof (cases "cache_get (parser_cache w) (clock w) sig")
  case (Pair v c')
  have c': "set (Map_keys (cache c')) \<subseteq> set (Map_keys (cache (parser_cache w)))"
    using cache_get_keys [of "parser_cache w" "clock w" sig] Pair by simp
  show ?thesis
  proof (cases v)
    case None
    show ?thesis
    proof (cases "fetched r sig")
      case None
      with Pair \<open>v = None\<close> c' show ?thesis
        by (auto simp: parseTrade_cached_miss)
    next
      case (Some tx)
      with Pair \<open>v = None\<close> c'
        transaction_path_keys [of True sig tx
          "w\<lparr>parser_cache := c', fetch_calls := fetch_calls w @ [sig]\<rparr>"]
      show ?thesis
        by (auto simp: parseTrade_cached_miss)
    qed
  next
    case (Some t)
    with Pair c' show ?thesis by (auto simp: parseTrade_cached_hit)
  qed
qed

lemma parseTrade_failed_keys:
  assumes "fst (parseTrade r w sig False True) = None"
  shows "set (Map_keys (cache (parser_cache (snd (parseTrade r w sig False True)))))
     \<subseteq> set (Map_keys (cache (parser_cache w)))"
proof (cases "cache_get (parser_cache w) (clock w) sig")
  case (Pair v c')
  have c': "set (Map_keys (cache c')) \<subseteq> set (Map_keys (cache (parser_cache w)))"
    using cache_get_keys [of "parser_cache w" "clock w" sig] Pair by simp
  show ?thesis
  proof (cases v)
    case None
    show ?thesis
    proof (cases "fetched r sig")
      case None
      with Pair \<open>v = None\<close> c' show ?thesis
        by (auto simp: parseTrade_cached_miss)
    next
      case (Some tx)
      let ?w = "w\<lparr>parser_cache := c', fetch_calls := fetch_calls w @ [sig]\<rparr>"
      have "fst (transaction_path True sig tx ?w) = None"
        using assms Pair \<open>v = None\<close> Some by (simp add: parseTrade_cached_miss)
      then have "snd (transaction_path True sig tx ?w) = ?w"
        by (rule transaction_path_None)
      with Pair \<open>v = None\<close> Some c' show ?thesis
        by (auto simp: parseTrade_cached_miss)
    qed
  next
    case (Some t)
    with Pair assms show ?thesis by (simp add: parseTrade_cached_hit)
  qed
qed

lemma parseTrade_result:
  "fst (parseTrade r w sig False True) =
     (case fst (cache_get (parser_cache w) (clock w) sig) of
        Some t \<Rightarrow> Some t
      | None \<Rightarrow> fst (parseTrade r w' sig False False))"
proof (cases "cache_get (parser_cache w) (clock w) sig")
  case (Pair v c')
  show ?thesis
  proof (cases v)
    case None
    with Pair show ?thesis
      using transaction_path_fst [of True sig _
          "w\<lparr>parser_cache := c', fetch_calls := fetch_calls w @ [sig]\<rparr>" False
          "w'\<lparr>fetch_calls := fetch_calls w' @ [sig]\<rparr>"]
      by (simp add: parseTrade_cached_miss parseTrade_uncached split: option.splits)
  next
    case (Some t)
    with Pair show ?thesis by (simp add: parseTrade_cached_hit)
  qed
qed

lemma internal_fst:
  "fst (parseTradeInfoInternal r w sig) = map_option (summarize False) (fst (parseTrade r w sig False True))"
  by (simp add: parseTradeInfoInternal_def split: prod.splits)

lemma internal_snd:
  "snd (parseTradeInfoInternal r w sig) = snd (parseTrade r w sig False True)"
  by (simp add: parseTradeInfoInternal_def split: prod.splits)

lemma fallback_settle_fst:
  "fst (fallback_settle r (sig # rest) w) =
     (sig, fst (parseTradeInfoInternal r w sig)) #
     fst (fallback_settle r rest (snd (parseTradeInfoInternal r w sig)))"
  by (simp add: case_prod_beta Let_def)

lemma fallback_settle_snd:
  "snd (fallback_settle r (sig # rest) w) =
     snd (fallback_settle r rest (snd (parseTradeInfoInternal r w sig)))"
  by (simp add: case_prod_beta Let_def)

lemma fallback_settle_api: "api_calls (snd (fallback_settle r batch w)) = api_calls w"
proof (induction batch arbitrary: w)
  case Nil
  then show ?case by simp
next
  case (Cons sig rest)
  have "api_calls (snd (parseTradeInfoInternal r w sig)) = api_calls w"
    by (simp add: internal_snd parseTrade_no_api)
  with Cons.IH [of "snd (parseTradeInfoInternal r w sig)"] show ?case
    by (simp add: fallback_settle_snd del: fallback_settle.simps)
qed

lemma fallback_settle_failed:
  assumes "fst (parseTrade r w0 sig False False) = None"
    and "sig \<notin> set (Map_keys (cache (parser_cache w)))"
  shows "(sig, Some t) \<notin> set (fst (fallback_settle r batch w))"
  using assms(2)
proof (induction batch arbitrary: w)
  case Nil
  then show ?case by simp
next
  case (Cons s rest)
  let ?w1 = "snd (parseTradeInfoInternal r w s)"
  have miss: "fst (cache_get (parser_cache w) (clock w) sig) = None"
    using Cons.prems by (simp add: cache_get_absent)
  have here: "s = sig \<Longrightarrow> fst (parseTradeInfoInternal r w s) = None"
    using parseTrade_result [of r w sig w0] miss assms(1) by (simp add: internal_fst)
  have keys: "sig \<notin> set (Map_keys (cache (parser_cache ?w1)))"
  proof (cases "s = sig")
    case True
    then have "fst (parseTrade r w s False True) = None"
      using here by (simp add: internal_fst)
    from parseTrade_failed_keys [OF this] Cons.prems True show ?thesis
      by (auto simp: internal_snd)
  next
    case False
    with parseTrade_keys [of r w s] Cons.prems show ?thesis
      by (auto simp: internal_snd)
  qed
  from Cons.IH [OF keys] here show ?case
    by (auto simp: fallback_settle_fst simp del: fallback_settle.simps)
qed

lemma fallback_settle_succeeded:
  assumes "fst (parseTrade r w0 sig False False) \<noteq> None" and "sig \<in> set batch"
  shows "\<exists>t. (sig, Some t) \<in> set (fst (fallback_settle r batch w))"
  using assms(2)
proof (induction batch arbitrary: w)
  case Nil
  then show ?case by simp
next
  case (Cons s rest)
  show ?case
  proof (cases "s = sig")
    case True
    have "fst (parseTrade r w sig False True) \<noteq> None"
      using parseTrade_result [of r w sig w0] assms(1) by (simp split: option.splits)
    then have "fst (parseTradeInfoInternal r w sig) \<noteq> None"
      by (simp add: internal_fst)
    with True show ?thesis
      by (auto simp: fallback_settle_fst simp del: fallback_settle.simps)
  next
    case False
    with Cons.prems have "sig \<in> set rest" by simp
    from Cons.IH [OF this, of "snd (parseTradeInfoInternal r w s)"] show ?thesis
      by (auto simp: fallback_settle_fst simp del: fallback_settle.simps)
  qed
qed

lemma set_results_keys:
  "set (Map_keys (set_results results rs)) =
     set (Map_keys results) \<union> {sig. \<exists>t. (sig, Some t) \<in> set rs}"
proof (induction rs arbitrary: results)
  case Nil
  then show ?case by (simp add: set_results_def)
next
  case (Cons a rs)
  obtain sig t where a: "a = (sig, t)" by (cases a)
  have step: "set_results results (a # rs) =
      set_results (case t of None \<Rightarrow> results | Some x \<Rightarrow> Map_set results sig x) rs"
    by (simp add: set_results_def a)
  show ?case
    unfolding step Cons.IH using a
    by (cases t) (auto simp: Map_set_keys)
qed

lemma remember_fetch [simp]: "fetch_calls (remember uc sig t w) = fetch_calls w"
  by (simp add: remember_def)

lemma transaction_path_fetch: "fetch_calls (snd (transaction_path uc sig tx w)) = fetch_calls w"
  by (simp add: transaction_path_def split: sum.splits option.splits)

lemma parseTrade_fetch:
  "fetch_calls (snd (parseTrade r w sig False True)) =
     fetch_calls w @ (if fst (cache_get (parser_cache w) (clock w) sig) = None then [sig] else [])"
proof (cases "cache_get (parser_cache w) (clock w) sig")
  case (Pair v c')
  show ?thesis
  proof (cases v)
    case None
    with Pair show ?thesis
      by (simp add: parseTrade_cached_miss transaction_path_fetch split: option.splits)
  next
    case (Some t)
    with Pair show ?thesis by (simp add: parseTrade_cached_hit)
  qed
qed

lemma fallback_settle_fetch_mono:
  "set (fetch_calls w) \<subseteq> set (fetch_calls (snd (fallback_settle r batch w)))"
proof (induction batch arbitrary: w)
  case Nil
  then show ?case by simp
next
  case (Cons s rest)
  have "set (fetch_calls w) \<subseteq> set (fetch_calls (snd (parseTradeInfoInternal r w s)))"
    by (simp add: internal_snd parseTrade_fetch)
  with Cons.IH [of "snd (parseTradeInfoInternal r w s)"] show ?case
    by (auto simp: fallback_settle_snd simp del: fallback_settle.simps)
qed

lemma fallback_settle_fetched:
  assumes "sig \<in> set batch" and "sig \<notin> set (Map_keys (cache (parser_cache w)))"
  shows "sig \<in> set (fetch_calls (snd (fallback_settle r batch w)))"
  using assms
proof (induction batch arbitrary: w)
  case Nil
  then show ?case by simp
next
  case (Cons s rest)
  let ?w1 = "snd (parseTradeInfoInternal r w s)"
  show ?case
  proof (cases "s = sig")
    case True
    have "fst (cache_get (parser_cache w) (clock w) sig) = None"
      using Cons.prems(2) by (simp add: cache_get_absent)
    then have "sig \<in> set (fetch_calls ?w1)"
      using True by (simp add: internal_snd parseTrade_fetch)
    with fallback_settle_fetch_mono [of ?w1 r rest] show ?thesis
      by (auto simp: fallback_settle_snd simp del: fallback_settle.simps)
  next
    case False
    with Cons.prems(1) have rest: "sig \<in> set rest" by simp
    have "sig \<notin> set (Map_keys (cache (parser_cache ?w1)))"
      using parseTrade_keys [of r w s] Cons.prems(2) False by (auto simp: internal_snd)
    from Cons.IH [OF rest this] show ?thesis
      by (simp add: fallback_settle_snd del: fallback_settle.simps)
  qed
qed

text \<open>
  Claim C4, as the code has it. When the bulk fetch of a batch throws, every signature of
  the batch goes through \<open>parseTradeInfoInternal\<close>, that is \<open>parseTrade\<close> with the cache
  on and the Jupiter API off: the API is not called at all, and every signature that is
  not in the cache is fetched on its own. A signature whose individual fetch and
  classification yield an outcome is in the result map afterwards; a signature for which
  they yield nothing (and which was neither cached nor in the map before) is absent from
  it. No exception leaves the batch step: it always returns a map and a state.
\<close>

theorem fallback_after_failed_bulk_fetch:
  assumes "getParsedTransactions r batch = None"
  shows "api_calls (snd (process_batch r batch (results, w))) = api_calls w
     \<and> (\<forall>sig \<in> set batch. fst (parseTrade r w sig False False) \<noteq> None \<longrightarrow>
           sig \<in> set (Map_keys (fst (process_batch r batch (results, w)))))
     \<and> (\<forall>sig. fst (parseTrade r w sig False False) = None
             \<and> sig \<notin> set (Map_keys results)
             \<and> sig \<notin> set (Map_keys (cache (parser_cache w))) \<longrightarrow>
           sig \<notin> set (Map_keys (fst (process_batch r batch (results, w)))))
     \<and> (\<forall>sig \<in> set batch. sig \<notin> set (Map_keys (cache (parser_cache w))) \<longrightarrow>
           sig \<in> set (fetch_calls (snd (process_batch r batch (results, w)))))"
proof -
  have pb: "process_batch r batch (results, w) =
      (set_results results (fst (fallback_settle r batch w)), snd (fallback_settle r batch w))"
    using assms by (simp add: process_batch_def split: prod.splits)
  have api: "api_calls (snd (process_batch r batch (results, w))) = api_calls w"
    unfolding pb by (simp add: fallback_settle_api)
  have present: "sig \<in> set (Map_keys (fst (process_batch r batch (results, w))))"
    if "sig \<in> set batch" "fst (parseTrade r w sig False False) \<noteq> None" for sig
    unfolding pb using fallback_settle_succeeded [OF that(2) that(1), of w]
    by (auto simp: set_results_keys)
  have absent: "sig \<notin> set (Map_keys (fst (process_batch r batch (results, w))))"
    if "fst (parseTrade r w sig False False) = None" "sig \<notin> set (Map_keys results)"
       "sig \<notin> set (Map_keys (cache (parser_cache w)))" for sig
    unfolding pb using fallback_settle_failed [OF that(1) that(3)] that(2)
    by (auto simp: set_results_keys)
  have fetched: "sig \<in> set (fetch_calls (snd (process_batch r batch (results, w))))"
    if "sig \<in> set batch" "sig \<notin> set (Map_keys (cache (parser_cache w)))" for sig
    unfolding pb using fallback_settle_fetched [OF that] by simp
  from api present absent fetched show ?thesis by blast
qed

lemma failing_bulk_values:
  "getParsedTransactions failing_bulk_rpc [''sig1'', ''sig2''] = None"
  "fst (parseTrade failing_bulk_rpc fresh_world ''sig1'' False False) \<noteq> None"
  "fst (parseTrade failing_bulk_rpc fresh_world ''sig2'' False False) = None"
  by code_simp+

theorem fallback_after_failed_bulk_fetch_witness:
  "api_calls (snd (process_batch failing_bulk_rpc [''sig1'', ''sig2''] ([], fresh_world))) = []
   \<and> ''sig1'' \<in> set (Map_keys (fst (process_batch failing_bulk_rpc [''sig1'', ''sig2''] ([], fresh_world))))
   \<and> ''sig2'' \<notin> set (Map_keys (fst (process_batch failing_bulk_rpc [''sig1'', ''sig2''] ([], fresh_world))))"
  using fallback_after_failed_bulk_fetch [OF failing_bulk_values(1), of "[]" fresh_world]
    failing_bulk_values(2,3)
  by (simp add: fresh_world_def new_SimpleCache_def Map_keys_def)

text \<open>
  Claim C4 as stated fails: in the fallback the external API is not consulted. For
  \<open>sig1\<close> the API knows the trade, and \<open>parseTrade\<close> with the API enabled would return
  the API's outcome; the fallback returns the generic parser's outcome and the list of API
  calls stays empty.
\<close>

theorem fallback_api_counterexample:
  "getParsedTransactions failing_bulk_rpc [''sig1'', ''sig2''] = None
   \<and> api_calls (snd (process_batch failing_bulk_rpc [''sig1'', ''sig2''] ([], fresh_world))) = []
   \<and> map_option r_source
       (Map_get (fst (process_batch failing_bulk_rpc [''sig1'', ''sig2''] ([], fresh_world))) ''sig1'')
     = Some (Some ''generic_parser'')
   \<and> map_option source (fst (parseTrade failing_bulk_rpc fresh_world ''sig1'' True True))
     = Some (Some ''jupiter_api'')
   \<and> api_calls (snd (parseTrade failing_bulk_rpc fresh_world ''sig1'' True True)) = [''sig1'']"
  by code_simp

section \<open>Two places where the code misses its own intent\<close>

text \<open>
  \<open>parseSOLBalanceChanges\<close> reads \<open>meta.preBalances[index]\<close> without a guard: with
  the post balances present and the pre balances absent it throws, where the structural
  test of \<open>identifyDEX\<close> reads the same array through \<open>?.\<close> and goes on.
\<close>

lemma missing_pre_balances_throw:
  "parseSOLBalanceChanges no_pre_balances_tx = Inl TypeError
   \<and> hasSolChanges (meta no_pre_balances_tx)"
  by code_simp

text \<open>
  The comment above the test of the representative pair says that a pair of SOL and a
  token is a valid trade. The test compares a mint with the literal \<open>'SOL'\<close>, but the
  native entries of \<open>allChanges\<close> carry the mint \<open>So111...112\<close>, so a representative pair
  of a native decrease and a token increase does not pass it and the result is \<open>null\<close>.
\<close>

lemma native_token_pair_dropped:
  "parseTokenBalanceChanges (meta native_token_tx) =
     Inr [\<lparr>tc_mint = ''MintM'', tc_owner = ''Pool'', preAmount = Num 5, postAmount = Num 0,
           tc_change = Num (- 5), tc_decimals = 6\<rparr>,
          \<lparr>tc_mint = ''MintM'', tc_owner = ''Signer'', preAmount = Num 0, postAmount = Num 5,
           tc_change = Num 5, tc_decimals = 6\<rparr>]
   \<and> map sc_change (case parseSOLBalanceChanges native_token_tx of Inl e \<Rightarrow> [] | Inr cs \<Rightarrow> cs) =
       [Num (- 10), Num 4]
   \<and> max_abs_item
        \<lparr>ci_type = TokenItem, ci_mint = ''MintM'', ci_amount = Num (- 5), ci_decimals = 6\<rparr>
        [\<lparr>ci_type = SolItem, ci_mint = SOL_MINT, ci_amount = Num (- 10), ci_decimals = 9\<rparr>] =
      \<lparr>ci_type = SolItem, ci_mint = SOL_MINT, ci_amount = Num (- 10), ci_decimals = 9\<rparr>
   \<and> max_abs_item
        \<lparr>ci_type = TokenItem, ci_mint = ''MintM'', ci_amount = Num 5, ci_decimals = 6\<rparr>
        [\<lparr>ci_type = SolItem, ci_mint = SOL_MINT, ci_amount = Num 4, ci_decimals = 9\<rparr>] =
      \<lparr>ci_type = TokenItem, ci_mint = ''MintM'', ci_amount = Num 5, ci_decimals = 6\<rparr>
   \<and> \<not> isSOLTokenTrade
        \<lparr>ci_type = SolItem, ci_mint = SOL_MINT, ci_amount = Num (- 10), ci_decimals = 9\<rparr>
        \<lparr>ci_type = TokenItem, ci_mint = ''MintM'', ci_amount = Num 5, ci_decimals = 6\<rparr>
   \<and> parseGenericTransaction native_token_tx ''unknown'' = Inr None"
  by code_simp

section \<open>The object stored is the object returned\<close>

lemma Map_get_Map_set: "Map_get (Map_set m k v) k = Some v"
  unfolding Map_get_def by (induction m) auto

lemma cache_set_ttl [simp]: "ttl (cache_set c now key v) = ttl c"
  by (simp add: cache_set_def Let_def)

text \<open>
  The first caller already shares its outcome with the cache: the reference that
  \<open>parseTrade\<close> stores is the one it returns, and a later hit returns it again.
\<close>

lemma stored_outcome_is_shared:
  assumes "later - now \<le> ttl (ref_cache w)"
  shows "fst (remember_object w now sig p) = p
       \<and> fst (parseTrade_cached (snd (remember_object w now sig p)) later sig) = Some p"
  using assms
  by (simp add: remember_object_def parseTrade_cached_def cache_get_def cache_set_cache
      Map_get_Map_set)

end
